theory Spec2Isabelle
  imports Main
begin

section \<open>FORS API: the relational store\<close>

text \<open>
  The tables are those of the SQL schema in README.md, one record per row, one list per
  table. Column names carry a table prefix (\<open>u_\<close>, \<open>r_\<close>, \<open>p_\<close>, \<open>rp_\<close>,
  \<open>pr_\<close>, \<open>pu_\<close>, \<open>ft_\<close>, \<open>f_\<close>), since a record field is a constant of the
  theory. UUID keys are strings, INT keys are naturals, a nullable column is an option.
  The timestamp columns \<open>created_at\<close> and \<open>date_added\<close> are filled by the database and
  read by no route modelled here; they are left out.
\<close>

type_synonym uuid = string

record users_row =
  u_id :: uuid
  u_full_name :: string
  u_email :: string
  u_role_id :: nat
  u_password_hash :: string
  u_activation_status :: bool
  u_otp :: "string option"
  u_is_active :: bool

record roles_row =
  r_id :: nat
  r_role_name :: string

record permissions_row =
  p_id :: nat
  p_permission_name :: string
  p_permission_code :: string

record role_permissions_row =
  rp_role_id :: nat
  rp_permission_id :: nat

record projects_row =
  pr_id :: nat
  pr_name :: string
  pr_description :: "string option"
  pr_status :: "bool option"

record project_users_row =
  pu_project_id :: nat
  pu_user_id :: uuid

record farmer_types_row =
  ft_id :: nat
  ft_name :: string

record farmers_row =
  f_id :: uuid
  f_full_name :: string
  f_mobile_number :: "string option"
  f_date_of_birth :: "string option"
  f_age :: "int option"
  f_gender :: "string option"
  f_farmer_type_id :: "nat option"
  f_country_name :: "string option"
  f_state_name :: "string option"
  f_district_name :: "string option"
  f_village_tract_name :: "string option"
  f_village_name :: "string option"
  f_project_id :: "nat option"
  f_added_by_user_id :: "uuid option"
  f_latitude :: "string option"
  f_longitude :: "string option"

record store =
  users :: "users_row list"
  roles :: "roles_row list"
  permissions :: "permissions_row list"
  role_permissions :: "role_permissions_row list"
  projects :: "projects_row list"
  project_users :: "project_users_row list"
  farmer_types :: "farmer_types_row list"
  farmers :: "farmers_row list"

text \<open>
  The constraints of the schema that the properties below rely on: primary keys are
  unique, and every user row references an existing role (\<open>role_id INT NOT NULL
  REFERENCES roles(id)\<close>).
\<close>

definition schema_ok :: "store \<Rightarrow> bool" where
  "schema_ok st \<longleftrightarrow>
     distinct (map u_id (users st)) \<and>
     distinct (map r_id (roles st)) \<and>
     distinct (map p_id (permissions st)) \<and>
     distinct (map (\<lambda>rp. (rp_role_id rp, rp_permission_id rp)) (role_permissions st)) \<and>
     list_all (\<lambda>u. list_ex (\<lambda>r. r_id r = u_role_id u) (roles st)) (users st)"

subsection \<open>Query results\<close>

text \<open>
  \<open>.single()\<close> of the Supabase client yields the row when the query matches exactly one
  row, and \<open>{ data: null, error }\<close> otherwise; every caller tests \<open>error || !data\<close>, so
  the two are one value here. An embedded many-to-one resource (\<open>role:roles(...)\<close>,
  \<open>permission:permissions(...)\<close>) is the referenced row or null.
\<close>

definition single :: "'a list \<Rightarrow> 'a option" where
  "single xs = (case xs of [x] \<Rightarrow> Some x | _ \<Rightarrow> None)"

definition embed_one :: "('a \<Rightarrow> bool) \<Rightarrow> 'a list \<Rightarrow> 'a option" where
  "embed_one P xs = find P xs"

section \<open>HTTP responses\<close>

record claims =
  userId :: uuid
  email :: string
  roleName :: string

datatype body =
    Message string
  | ServerError string string
  | FarmerList "farmers_row list"
  | FarmerResult string farmers_row
  | FarmerRecord farmers_row
  | ProjectList "(projects_row \<times> users_row option list) list"
  | ProjectRecord projects_row "users_row option list"
  | Summary nat nat nat nat
  | Counts string "(string \<times> nat) list"
  | RoleResult string roles_row
  | TokenResult string string uuid string string string

datatype response = Response (status: nat) (payload: body)

text \<open>
  A middleware either answers the request itself or calls \<open>next()\<close>; \<open>Next\<close> carries
  what it attached to the request.
\<close>

datatype 'a outcome = Responded response | Next 'a

section \<open>middleware/authMiddleware.js\<close>

text \<open>\<open>String.prototype.split\<close> with a one-character separator.\<close>

fun split_on :: "char \<Rightarrow> string \<Rightarrow> string list" where
  "split_on c [] = [[]]"
| "split_on c (x # xs) =
     (if x = c then [] # split_on c xs
      else (case split_on c xs of
              w # ws \<Rightarrow> (x # w) # ws
            | [] \<Rightarrow> [[x]]))"

text \<open>
  \<open>authHeader && authHeader.split(' ')[1]\<close>, followed by the test \<open>!token\<close>: an absent
  header, a header with no second piece and an empty second piece are all "no token".
\<close>

definition bearer_token :: "string option \<Rightarrow> string option" where
  "bearer_token authHeader =
     (case authHeader of
        None \<Rightarrow> None
      | Some h \<Rightarrow>
          (case split_on CHR '' '' h of
             _ # t # _ \<Rightarrow> if t = [] then None else Some t
           | _ \<Rightarrow> None))"

text \<open>
  \<open>jwt.verify(token, process.env.JWT_SECRET, callback)\<close> belongs to the jsonwebtoken
  package: it is the parameter \<open>verify\<close>, which yields the payload of a well-formed,
  correctly signed, unexpired token and \<open>None\<close> for any other string.
\<close>

definition authenticateToken ::
  "(string \<Rightarrow> claims option) \<Rightarrow> store \<Rightarrow> string option \<Rightarrow> claims outcome" where
  "authenticateToken verify st authHeader =
     (case bearer_token authHeader of
        None \<Rightarrow> Responded (Response 401 (Message ''Authentication token required.''))
      | Some token \<Rightarrow>
          (case verify token of
             None \<Rightarrow> Responded (Response 403 (Message ''Invalid or expired token.''))
           | Some user \<Rightarrow>
               (case single (filter (\<lambda>u. u_id u = userId user) (users st)) of
                  None \<Rightarrow> Responded (Response 403 (Message ''User is inactive or not found.''))
                | Some data \<Rightarrow>
                    if \<not> u_is_active data \<or> u_activation_status data = False
                    then Responded (Response 403 (Message ''User is inactive or not found.''))
                    else Next user)))"

text \<open>
  \<open>authorizePermission(permissionCode)\<close>: the nested select reads the user, its role, the
  role's \<open>role_permissions\<close> rows and the permission of each; \<open>some\<close> looks for a row
  whose permission has the required code, compared with \<open>===\<close>. The embedded
  \<open>role_permissions\<close> of a role that exists is a list, possibly empty, so the test
  \<open>!userPermissions.role.role_permissions\<close> adds no case. The role name is not read.
\<close>

definition hasPermission :: "store \<Rightarrow> roles_row \<Rightarrow> string \<Rightarrow> bool" where
  "hasPermission st role permissionCode =
     list_ex (\<lambda>rp.
        case embed_one (\<lambda>p. p_id p = rp_permission_id rp) (permissions st) of
          None \<Rightarrow> False
        | Some permission \<Rightarrow> p_permission_code permission = permissionCode)
       (filter (\<lambda>rp. rp_role_id rp = r_id role) (role_permissions st))"

definition authorizePermission :: "string \<Rightarrow> store \<Rightarrow> claims \<Rightarrow> unit outcome" where
  "authorizePermission permissionCode st user =
     (case single (filter (\<lambda>u. u_id u = userId user) (users st)) of
        None \<Rightarrow>
          Responded (Response 403 (Message ''User permissions not found or access denied.''))
      | Some userPermissions \<Rightarrow>
          (case embed_one (\<lambda>r. r_id r = u_role_id userPermissions) (roles st) of
             None \<Rightarrow>
               Responded (Response 403 (Message ''User permissions not found or access denied.''))
           | Some role \<Rightarrow>
               if \<not> hasPermission st role permissionCode
               then Responded (Response 403
                      (Message (''Access denied. Requires permission: '' @ permissionCode)))
               else Next ()))"

text \<open>
  The set the specification speaks of: the codes of the permissions joined to a role by
  the Role-Permission Link table.
\<close>

definition linked_codes :: "store \<Rightarrow> nat \<Rightarrow> string set" where
  "linked_codes st rid =
     set [p_permission_code p.
            rp \<leftarrow> role_permissions st, rp_role_id rp = rid,
            p \<leftarrow> permissions st, p_id p = rp_permission_id rp]"

section \<open>The response object and thrown errors\<close>

text \<open>
  \<open>res\<close> is the response sent so far, if any. Express answers a request once: a second
  \<open>res.status(...).json(...)\<close> throws \<open>ERR_HTTP_HEADERS_SENT\<close> and the client keeps
  the first answer. A rejected write of the store is the \<open>error\<close> the Supabase client
  returns, which the routes throw. Failures of the transport between the API and the
  store are not modelled: a store call fails only for a reason the data gives.
\<close>

datatype js_error = HeadersSent | StoreError string | TypeError string

fun message :: "js_error \<Rightarrow> string" where
  "message HeadersSent = ''Cannot set headers after they are sent to the client''"
| "message (StoreError m) = m"
| "message (TypeError m) = m"

definition send :: "response \<Rightarrow> response option \<Rightarrow> js_error + response option" where
  "send r res = (case res of None \<Rightarrow> Inr (Some r) | Some _ \<Rightarrow> Inl HeadersSent)"

text \<open>\<open>String.prototype.includes\<close>.\<close>

fun str_includes :: "string \<Rightarrow> string \<Rightarrow> bool" where
  "str_includes [] sub = (sub = [])"
| "str_includes (x # xs) sub = (take (length sub) (x # xs) = sub \<or> str_includes xs sub)"

text \<open>JavaScript's \<open>!v\<close> on a request field: absent, the empty string, or the number 0.\<close>

definition falsy_str :: "string option \<Rightarrow> bool" where
  "falsy_str v \<longleftrightarrow> v = None \<or> v = Some []"

definition falsy_num :: "nat option \<Rightarrow> bool" where
  "falsy_num v \<longleftrightarrow> v = None \<or> v = Some 0"

section \<open>Writes to the store\<close>

text \<open>
  The database enforces the keys of the schema in README.md: a write that would repeat a
  primary or unique key, or reference a row that does not exist, is rejected whole and
  changes nothing. The message texts stand for those of the database; the routes only
  test them for the substring \<open>Access denied\<close>.
\<close>

definition fk_ok :: "'k option \<Rightarrow> 'k list \<Rightarrow> bool" where
  "fk_ok v keys = (case v of None \<Rightarrow> True | Some k \<Rightarrow> k \<in> set keys)"

definition unique_violation :: js_error where
  "unique_violation = StoreError ''duplicate key value violates unique constraint''"

definition fk_violation :: js_error where
  "fk_violation = StoreError ''insert or update on table violates foreign key constraint''"

definition no_single_row :: js_error where
  "no_single_row = StoreError ''JSON object requested, multiple (or no) rows returned''"

definition farmers_fk_ok :: "store \<Rightarrow> farmers_row \<Rightarrow> bool" where
  "farmers_fk_ok st f \<longleftrightarrow>
     fk_ok (f_farmer_type_id f) (map ft_id (farmer_types st)) \<and>
     fk_ok (f_project_id f) (map pr_id (projects st)) \<and>
     fk_ok (f_added_by_user_id f) (map u_id (users st))"

text \<open>\<open>supabase.from('farmers').insert({...}).select().single()\<close>\<close>

definition insert_farmer :: "store \<Rightarrow> farmers_row \<Rightarrow> js_error + store \<times> farmers_row" where
  "insert_farmer st f =
     (if f_id f \<in> set (map f_id (farmers st)) then Inl unique_violation
      else if \<not> farmers_fk_ok st f then Inl fk_violation
      else Inr (st\<lparr>farmers := farmers st @ [f]\<rparr>, f))"

text \<open>\<open>supabase.from('farmers').update(updateData).eq('id', id).select().single()\<close>\<close>

definition update_farmer ::
  "store \<Rightarrow> uuid \<Rightarrow> (farmers_row \<Rightarrow> farmers_row) \<Rightarrow> js_error + store \<times> farmers_row" where
  "update_farmer st i upd =
     (let updated = map upd (filter (\<lambda>f. f_id f = i) (farmers st))
      in if \<not> list_all (farmers_fk_ok st) updated then Inl fk_violation
         else (case single updated of
                 None \<Rightarrow> Inl no_single_row
               | Some row \<Rightarrow>
                   Inr (st\<lparr>farmers := map (\<lambda>f. if f_id f = i then upd f else f) (farmers st)\<rparr>,
                        row)))"

text \<open>\<open>supabase.from('farmers').delete().eq('id', id)\<close>\<close>

definition delete_farmer :: "store \<Rightarrow> uuid \<Rightarrow> store" where
  "delete_farmer st i = st\<lparr>farmers := filter (\<lambda>f. f_id f \<noteq> i) (farmers st)\<rparr>"

text \<open>\<open>supabase.from('roles').update({ role_name }).eq('id', id).select().single()\<close>\<close>

definition update_role_name :: "store \<Rightarrow> nat \<Rightarrow> string \<Rightarrow> js_error + store \<times> roles_row" where
  "update_role_name st i name =
     (if list_ex (\<lambda>r. r_id r \<noteq> i \<and> r_role_name r = name) (roles st)
         \<and> list_ex (\<lambda>r. r_id r = i) (roles st)
      then Inl unique_violation
      else (case single (map (\<lambda>r. r\<lparr>r_role_name := name\<rparr>)
                           (filter (\<lambda>r. r_id r = i) (roles st))) of
              None \<Rightarrow> Inl no_single_row
            | Some row \<Rightarrow>
                Inr (st\<lparr>roles := map (\<lambda>r. if r_id r = i then r\<lparr>r_role_name := name\<rparr> else r)
                                    (roles st)\<rparr>,
                     row)))"

text \<open>\<open>supabase.from('role_permissions').delete().eq('role_id', id)\<close>\<close>

definition delete_role_permissions :: "store \<Rightarrow> nat \<Rightarrow> store" where
  "delete_role_permissions st i =
     st\<lparr>role_permissions := filter (\<lambda>rp. rp_role_id rp \<noteq> i) (role_permissions st)\<rparr>"

text \<open>
  \<open>supabase.from('role_permissions').insert(rolePermissions)\<close>: one statement, so the
  batch is stored whole or not at all. The table has the primary key
  \<open>(role_id, permission_id)\<close> and a foreign key on each column.
\<close>

definition insert_role_permissions ::
  "store \<Rightarrow> role_permissions_row list \<Rightarrow> js_error + store" where
  "insert_role_permissions st rows =
     (let key = (\<lambda>rp. (rp_role_id rp, rp_permission_id rp))
      in if \<not> distinct (map key (role_permissions st @ rows)) then Inl unique_violation
         else if \<not> list_all (\<lambda>rp. rp_role_id rp \<in> set (map r_id (roles st)) \<and>
                                   rp_permission_id rp \<in> set (map p_id (permissions st))) rows
         then Inl fk_violation
         else Inr (st\<lparr>role_permissions := role_permissions st @ rows\<rparr>))"

text \<open>\<open>supabase.from('users').update({ otp }).eq('id', id)\<close>\<close>

definition update_otp :: "store \<Rightarrow> uuid \<Rightarrow> string option \<Rightarrow> store" where
  "update_otp st i v =
     st\<lparr>users := map (\<lambda>u. if u_id u = i then u\<lparr>u_otp := v\<rparr> else u) (users st)\<rparr>"

section \<open>Routes\<close>

text \<open>
  A handler receives the store and \<open>req.user\<close> and yields the response the client gets
  and the store it leaves. A route is \<open>authenticateToken\<close>, then the
  \<open>authorizePermission\<close> middlewares mounted on it, then the handler; each middleware
  that answers ends the request.
\<close>

type_synonym handler = "store \<Rightarrow> claims \<Rightarrow> response option \<times> store"

fun run_middlewares :: "string list \<Rightarrow> store \<Rightarrow> claims \<Rightarrow> unit outcome" where
  "run_middlewares [] st user = Next ()"
| "run_middlewares (code # codes) st user =
     (case authorizePermission code st user of
        Responded r \<Rightarrow> Responded r
      | Next _ \<Rightarrow> run_middlewares codes st user)"

definition route ::
  "(string \<Rightarrow> claims option) \<Rightarrow> string list \<Rightarrow> handler \<Rightarrow> store \<Rightarrow> string option
     \<Rightarrow> response option \<times> store" where
  "route verify codes handler st authHeader =
     (case authenticateToken verify st authHeader of
        Responded r \<Rightarrow> (Some r, st)
      | Next user \<Rightarrow>
          (case run_middlewares codes st user of
             Responded r \<Rightarrow> (Some r, st)
           | Next _ \<Rightarrow> handler st user))"

subsection \<open>routes/farmerRoutes.js\<close>

record farmer_body =
  fullName :: "string option"
  mobileNumber :: "string option"
  dateOfBirth :: "string option"
  age :: "int option"
  gender :: "string option"
  farmerTypeId :: "nat option"
  countryName :: "string option"
  stateName :: "string option"
  districtName :: "string option"
  villageTractName :: "string option"
  villageName :: "string option"
  projectId :: "nat option"
  latitude :: "string option"
  longitude :: "string option"

text \<open>
  \<open>await authorizePermission(code)(req, res, () => {})\<close> inside a handler: the
  middleware answers 403 on \<open>res\<close> when it denies and calls the empty callback when it
  grants. It returns normally in both cases; the value is \<open>res\<close> after the call.
\<close>

definition inline_authorize :: "string \<Rightarrow> store \<Rightarrow> claims \<Rightarrow> response option" where
  "inline_authorize code st user =
     (case authorizePermission code st user of
        Responded r \<Rightarrow> Some r
      | Next _ \<Rightarrow> None)"

text \<open>
  The \<open>catch\<close> block shared by the three writing handlers. When its own answer throws
  because \<open>res\<close> was already sent, the promise of the handler rejects and the client
  keeps what it had.
\<close>

definition catch_farmer ::
  "js_error \<Rightarrow> response option \<Rightarrow> store \<Rightarrow> response option \<times> store" where
  "catch_farmer e res st =
     (case send (if str_includes (message e) ''Access denied''
                 then Response 403 (Message (message e))
                 else Response 500 (ServerError ''Server error.'' (message e))) res of
        Inl _ \<Rightarrow> (res, st)
      | Inr res' \<Rightarrow> (res', st))"

text \<open>The project-scope lookup in \<open>project_users\<close>, ended by \<open>.single()\<close>.\<close>

definition projectUser ::
  "store \<Rightarrow> nat option \<Rightarrow> uuid \<Rightarrow> project_users_row option" where
  "projectUser st pid uid =
     single (filter (\<lambda>pu. Some (pu_project_id pu) = pid \<and> pu_user_id pu = uid)
               (project_users st))"

text \<open>The projects an identity is assigned to, by the Project Assignment table.\<close>

definition assigned_projects :: "store \<Rightarrow> uuid \<Rightarrow> nat set" where
  "assigned_projects st uid =
     set [pu_project_id pu. pu \<leftarrow> project_users st, pu_user_id pu = uid]"

text \<open>GET /api/farmers\<close>

definition farmers_get :: handler where
  "farmers_get st user =
     (if roleName user \<noteq> ''Admin'' then
        (let projectIds = map pu_project_id
                            (filter (\<lambda>p. pu_user_id p = userId user) (project_users st))
         in if length projectIds = 0 then (Some (Response 200 (FarmerList [])), st)
            else (Some (Response 200 (FarmerList
                    (filter (\<lambda>f. case f_project_id f of
                                   None \<Rightarrow> False
                                 | Some p \<Rightarrow> p \<in> set projectIds) (farmers st)))), st))
      else (Some (Response 200 (FarmerList (farmers st))), st))"


text \<open>POST /api/farmers; \<open>new_id\<close> is the key the database generates for the row.\<close>

definition farmers_post :: "farmer_body \<Rightarrow> uuid \<Rightarrow> handler" where
  "farmers_post b new_id st user =
     (if falsy_str (fullName b) \<or> falsy_num (farmerTypeId b) \<or> falsy_num (projectId b)
      then (Some (Response 400 (Message ''Full name, farmer type, and project are required.'')), st)
      else
        (case (if roleName user \<noteq> ''Admin'' then
                 (case projectUser st (projectId b) (userId user) of
                    None \<Rightarrow> Inl (Response 403
                      (Message ''You can only add farmers to projects you are assigned to.''))
                  | Some _ \<Rightarrow> Inr (inline_authorize ''ADD_FARMER_RECORDS'' st user))
               else Inr (inline_authorize ''CREATE_FARMER_RECORDS'' st user)) of
           Inl r \<Rightarrow> (Some r, st)
         | Inr res \<Rightarrow>
             (case insert_farmer st
                     \<lparr>f_id = new_id,
                      f_full_name = (case fullName b of Some v \<Rightarrow> v | None \<Rightarrow> []),
                      f_mobile_number = mobileNumber b,
                      f_date_of_birth = dateOfBirth b,
                      f_age = age b,
                      f_gender = gender b,
                      f_farmer_type_id = farmerTypeId b,
                      f_country_name = countryName b,
                      f_state_name = stateName b,
                      f_district_name = districtName b,
                      f_village_tract_name = villageTractName b,
                      f_village_name = villageName b,
                      f_project_id = projectId b,
                      f_added_by_user_id = Some (userId user),
                      f_latitude = latitude b,
                      f_longitude = longitude b\<rparr> of
                Inl e \<Rightarrow> catch_farmer e res st
              | Inr (st', newFarmer) \<Rightarrow>
                  (case send (Response 201
                               (FarmerResult ''Farmer record created successfully.'' newFarmer))
                          res of
                     Inl e \<Rightarrow> catch_farmer e res st'
                   | Inr res' \<Rightarrow> (res', st')))))"

text \<open>
  PUT /api/farmers/:id. \<open>updateData\<close> keeps the fields of the body that are not
  \<open>undefined\<close>; \<open>project_id\<close> is always among them, since \<open>targetProjectId\<close> is a
  number or null. \<open>.single()\<close> on the update fails when no row has the key, so the
  second "Farmer not found." answer of the handler cannot be reached.
\<close>

definition opt_key :: "'a option \<Rightarrow> string \<Rightarrow> string list" where
  "opt_key v k = (case v of None \<Rightarrow> [] | Some _ \<Rightarrow> [k])"

definition updateData_keys :: "farmer_body \<Rightarrow> string list" where
  "updateData_keys b =
     opt_key (fullName b) ''full_name'' @ opt_key (mobileNumber b) ''mobile_number'' @
     opt_key (dateOfBirth b) ''date_of_birth'' @ opt_key (age b) ''age'' @
     opt_key (gender b) ''gender'' @ opt_key (farmerTypeId b) ''farmer_type_id'' @
     opt_key (countryName b) ''country_name'' @ opt_key (stateName b) ''state_name'' @
     opt_key (districtName b) ''district_name'' @
     opt_key (villageTractName b) ''village_tract_name'' @
     opt_key (villageName b) ''village_name'' @ [''project_id''] @
     opt_key (latitude b) ''latitude'' @ opt_key (longitude b) ''longitude''"

definition keep :: "'a option \<Rightarrow> 'a option \<Rightarrow> 'a option" where
  "keep v old = (case v of None \<Rightarrow> old | Some x \<Rightarrow> Some x)"

definition updateData :: "farmer_body \<Rightarrow> nat option \<Rightarrow> farmers_row \<Rightarrow> farmers_row" where
  "updateData b targetProjectId f =
     f\<lparr>f_full_name := (case fullName b of None \<Rightarrow> f_full_name f | Some v \<Rightarrow> v),
       f_mobile_number := keep (mobileNumber b) (f_mobile_number f),
       f_date_of_birth := keep (dateOfBirth b) (f_date_of_birth f),
       f_age := keep (age b) (f_age f),
       f_gender := keep (gender b) (f_gender f),
       f_farmer_type_id := keep (farmerTypeId b) (f_farmer_type_id f),
       f_country_name := keep (countryName b) (f_country_name f),
       f_state_name := keep (stateName b) (f_state_name f),
       f_district_name := keep (districtName b) (f_district_name f),
       f_village_tract_name := keep (villageTractName b) (f_village_tract_name f),
       f_village_name := keep (villageName b) (f_village_name f),
       f_project_id := targetProjectId,
       f_latitude := keep (latitude b) (f_latitude f),
       f_longitude := keep (longitude b) (f_longitude f)\<rparr>"

definition farmers_put :: "uuid \<Rightarrow> farmer_body \<Rightarrow> handler" where
  "farmers_put i b st user =
     (case single (filter (\<lambda>f. f_id f = i) (farmers st)) of
        None \<Rightarrow> (Some (Response 404 (Message ''Farmer not found.'')), st)
      | Some existingFarmer \<Rightarrow>
          (let currentProjectId = f_project_id existingFarmer;
               targetProjectId = (if falsy_num (projectId b) then currentProjectId
                                  else projectId b)
           in case (if roleName user \<noteq> ''Admin'' then
                      (case projectUser st targetProjectId (userId user) of
                         None \<Rightarrow> Inl (Response 403
                           (Message ''You can only edit farmers in projects you are assigned to.''))
                       | Some _ \<Rightarrow> Inr (inline_authorize ''EDIT_FARMER_RECORDS'' st user))
                    else Inr (inline_authorize ''EDIT_FARMER_RECORDS'' st user)) of
                Inl r \<Rightarrow> (Some r, st)
              | Inr res \<Rightarrow>
                  if length (updateData_keys b) = 0 then
                    (case send (Response 400 (Message ''No fields to update provided.'')) res of
                       Inl e \<Rightarrow> catch_farmer e res st
                     | Inr res' \<Rightarrow> (res', st))
                  else
                    (case update_farmer st i (updateData b targetProjectId) of
                       Inl e \<Rightarrow> catch_farmer e res st
                     | Inr (st', updatedFarmer) \<Rightarrow>
                         (case send (Response 200
                                 (FarmerResult ''Farmer record updated successfully.''
                                    updatedFarmer)) res of
                            Inl e \<Rightarrow> catch_farmer e res st'
                          | Inr res' \<Rightarrow> (res', st')))))"

text \<open>DELETE /api/farmers/:id\<close>

definition farmers_delete :: "uuid \<Rightarrow> handler" where
  "farmers_delete i st user =
     (case single (filter (\<lambda>f. f_id f = i) (farmers st)) of
        None \<Rightarrow> (Some (Response 404 (Message ''Farmer not found.'')), st)
      | Some existingFarmer \<Rightarrow>
          (case (if roleName user \<noteq> ''Admin'' then
                   (case projectUser st (f_project_id existingFarmer) (userId user) of
                      None \<Rightarrow> Inl (Response 403
                        (Message ''You can only delete farmers from projects you are assigned to.''))
                    | Some _ \<Rightarrow> Inr (inline_authorize ''DELETE_FARMER_RECORDS'' st user))
                 else Inr (inline_authorize ''DELETE_FARMER_RECORDS'' st user)) of
             Inl r \<Rightarrow> (Some r, st)
           | Inr res \<Rightarrow>
               (let st' = delete_farmer st i
                in case send (Response 200 (Message ''Farmer record deleted successfully.''))
                          res of
                     Inl e \<Rightarrow> catch_farmer e res st'
                   | Inr res' \<Rightarrow> (res', st'))))"


subsection \<open>routes/roleRoutes.js\<close>

text \<open>
  PUT /api/roles/:id, mounted behind \<open>authorizePermission('EDIT_ROLES')\<close>. The path
  parameter is the numeric role key. \<open>permissionIds\<close> defaults to the empty list when
  the body omits it. The result of the delete is not inspected; \<open>.single()\<close> on the
  update already fails when no role has the key, so the handler's own 404 answer cannot
  be reached.
\<close>

record role_body =
  body_roleName :: "string option"
  permissionIds :: "nat list option"

definition roles_put :: "nat \<Rightarrow> role_body \<Rightarrow> handler" where
  "roles_put i b st user =
     (if falsy_str (body_roleName b)
      then (Some (Response 400 (Message ''Role name is required.'')), st)
      else
        (let name = (case body_roleName b of Some v \<Rightarrow> v | None \<Rightarrow> [])
         in case single (filter (\<lambda>r. r_role_name r = name \<and> r_id r \<noteq> i) (roles st)) of
              Some existingRole \<Rightarrow>
                (Some (Response 400 (Message ''Another role with this name already exists.'')), st)
            | None \<Rightarrow>
                (case update_role_name st i name of
                   Inl e \<Rightarrow> (Some (Response 500 (ServerError ''Server error.'' (message e))), st)
                 | Inr (st1, updatedRole) \<Rightarrow>
                     (let st2 = delete_role_permissions st1 i;
                          ids = (case permissionIds b of None \<Rightarrow> [] | Some l \<Rightarrow> l)
                      in if length ids > 0 then
                           (case insert_role_permissions st2
                                   (map (\<lambda>permission_id.
                                           \<lparr>rp_role_id = i, rp_permission_id = permission_id\<rparr>)
                                      ids) of
                              Inl e \<Rightarrow>
                                (Some (Response 500 (ServerError ''Server error.'' (message e))),
                                 st2)
                            | Inr st3 \<Rightarrow>
                                (Some (Response 200
                                   (RoleResult ''Role updated successfully.'' updatedRole)), st3))
                         else (Some (Response 200
                                 (RoleResult ''Role updated successfully.'' updatedRole)), st2)))))"

text \<open>The permission keys linked to a role.\<close>

definition linked_permission_ids :: "store \<Rightarrow> nat \<Rightarrow> nat set" where
  "linked_permission_ids st rid =
     set [rp_permission_id rp. rp \<leftarrow> role_permissions st, rp_role_id rp = rid]"

subsection \<open>routes/authRoutes.js\<close>

text \<open>
  POST /api/auth/login. \<open>bcrypt.compare\<close> is a parameter; \<open>otp\<close> is the value of
  \<open>generateOTP()\<close>, the decimal string of \<open>Math.floor(100000 + Math.random() * 900000)\<close>.
  Sending the mail is fire-and-forget and changes nothing the routes read.
\<close>

record login_body =
  lb_email :: "string option"
  lb_password :: "string option"

definition login ::
  "(string \<Rightarrow> string \<Rightarrow> bool) \<Rightarrow> string \<Rightarrow> login_body \<Rightarrow> store \<Rightarrow> response option \<times> store" where
  "login bcrypt_compare otp b st =
     (if falsy_str (lb_email b) \<or> falsy_str (lb_password b)
      then (Some (Response 400 (Message ''Please enter all fields.'')), st)
      else
        (case single (filter (\<lambda>u. Some (u_email u) = lb_email b) (users st)) of
           None \<Rightarrow> (Some (Response 400 (Message ''Invalid credentials.'')), st)
         | Some user \<Rightarrow>
             if \<not> bcrypt_compare (case lb_password b of Some v \<Rightarrow> v | None \<Rightarrow> [])
                    (u_password_hash user)
             then (Some (Response 400 (Message ''Invalid credentials.'')), st)
             else if \<not> u_activation_status user \<or> \<not> u_is_active user
             then (Some (Response 403
                     (Message ''Your account is inactive. Please contact an administrator.'')), st)
             else (Some (Response 200
                     (Message ''OTP sent to your email. Please verify to complete login.'')),
                   update_otp st (u_id user) (Some otp))))"

text \<open>
  POST /api/auth/verify-otp. \<open>jwt.sign(payload, secret, { expiresIn: '1h' })\<close> is the
  parameter \<open>jwt_sign\<close>. \<open>user.otp !== otp\<close> compares the stored column, null or a
  string, with the submitted string.
\<close>

record verify_body =
  vb_email :: "string option"
  vb_otp :: "string option"

definition verify_otp ::
  "(claims \<Rightarrow> string) \<Rightarrow> verify_body \<Rightarrow> store \<Rightarrow> response option \<times> store" where
  "verify_otp jwt_sign b st =
     (if falsy_str (vb_email b) \<or> falsy_str (vb_otp b)
      then (Some (Response 400 (Message ''Email and OTP are required.'')), st)
      else
        (case single (filter (\<lambda>u. Some (u_email u) = vb_email b) (users st)) of
           None \<Rightarrow> (Some (Response 400 (Message ''Invalid email or OTP.'')), st)
         | Some user \<Rightarrow>
             if u_otp user \<noteq> vb_otp b
             then (Some (Response 400 (Message ''Invalid OTP.'')), st)
             else
               (let st' = update_otp st (u_id user) None
                in case embed_one (\<lambda>r. r_id r = u_role_id user) (roles st) of
                     None \<Rightarrow>
                       (Some (Response 500
                          (ServerError ''Server error during OTP verification.''
                             (message (TypeError ''Cannot read properties of null'')))), st')
                   | Some role \<Rightarrow>
                       (let payload = \<lparr>userId = u_id user, email = u_email user,
                                       roleName = r_role_name role\<rparr>;
                            token = jwt_sign payload
                        in (Some (Response 200
                              (TokenResult ''OTP verified successfully.'' token (u_id user)
                                 (u_full_name user) (u_email user) (r_role_name role))), st')))))"

text \<open>The pending code of the identity with a given e-mail address.\<close>

definition pending_otp :: "store \<Rightarrow> string \<Rightarrow> string option" where
  "pending_otp st e =
     (case single (filter (\<lambda>u. u_email u = e) (users st)) of
        None \<Rightarrow> None
      | Some u \<Rightarrow> u_otp u)"

subsection \<open>routes/projectRoutes.js\<close>




subsection \<open>routes/dashboardRoutes.js\<close>



subsection \<open>routes/dataAnalysisRoutes.js\<close>













section \<open>A small instance of the store\<close>

text \<open>
  Two roles, an administrator and a field officer, two projects and one farmer in each.
  The field officer is assigned to project 1 only; her role may edit farmer records and
  may not add or delete them. The administrator's role is linked to \<open>EDIT_ROLES\<close>
  alone. A third identity has been deactivated.
\<close>

definition demo_store :: store where
  "demo_store =
     \<lparr>users =
        [\<lparr>u_id = ''a1'', u_full_name = ''Root'', u_email = ''root@fors.org'', u_role_id = 1,
          u_password_hash = ''h0'', u_activation_status = True, u_otp = None,
          u_is_active = True\<rparr>,
         \<lparr>u_id = ''u1'', u_full_name = ''Ada'', u_email = ''ada@fors.org'', u_role_id = 2,
          u_password_hash = ''h1'', u_activation_status = True, u_otp = None,
          u_is_active = True\<rparr>,
         \<lparr>u_id = ''u2'', u_full_name = ''Bo'', u_email = ''bo@fors.org'', u_role_id = 2,
          u_password_hash = ''h2'', u_activation_status = True, u_otp = None,
          u_is_active = False\<rparr>],
      roles = [\<lparr>r_id = 1, r_role_name = ''Admin''\<rparr>, \<lparr>r_id = 2, r_role_name = ''User''\<rparr>],
      permissions =
        [\<lparr>p_id = 1, p_permission_name = ''Edit Roles'', p_permission_code = ''EDIT_ROLES''\<rparr>,
         \<lparr>p_id = 2, p_permission_name = ''Add Farmer Records'',
          p_permission_code = ''ADD_FARMER_RECORDS''\<rparr>,
         \<lparr>p_id = 3, p_permission_name = ''Edit Farmer Records'',
          p_permission_code = ''EDIT_FARMER_RECORDS''\<rparr>],
      role_permissions =
        [\<lparr>rp_role_id = 1, rp_permission_id = 1\<rparr>, \<lparr>rp_role_id = 2, rp_permission_id = 3\<rparr>],
      projects =
        [\<lparr>pr_id = 1, pr_name = ''Alpha'', pr_description = None, pr_status = Some True\<rparr>,
         \<lparr>pr_id = 2, pr_name = ''Beta'', pr_description = None, pr_status = Some True\<rparr>],
      project_users = [\<lparr>pu_project_id = 1, pu_user_id = ''u1''\<rparr>],
      farmer_types = [\<lparr>ft_id = 1, ft_name = ''Smallholder''\<rparr>],
      farmers =
        [\<lparr>f_id = ''f1'', f_full_name = ''Chidi'', f_mobile_number = None,
          f_date_of_birth = None, f_age = None, f_gender = None, f_farmer_type_id = Some 1,
          f_country_name = None, f_state_name = None, f_district_name = None,
          f_village_tract_name = None, f_village_name = None, f_project_id = Some 1,
          f_added_by_user_id = Some ''a1'', f_latitude = None, f_longitude = None\<rparr>,
         \<lparr>f_id = ''f2'', f_full_name = ''Dayo'', f_mobile_number = None,
          f_date_of_birth = None, f_age = None, f_gender = None, f_farmer_type_id = Some 1,
          f_country_name = None, f_state_name = None, f_district_name = None,
          f_village_tract_name = None, f_village_name = None, f_project_id = Some 2,
          f_added_by_user_id = Some ''a1'', f_latitude = None, f_longitude = None\<rparr>]\<rparr>"

definition ada :: claims where
  "ada = \<lparr>userId = ''u1'', email = ''ada@fors.org'', roleName = ''User''\<rparr>"

definition root :: claims where
  "root = \<lparr>userId = ''a1'', email = ''root@fors.org'', roleName = ''Admin''\<rparr>"

definition bo :: claims where
  "bo = \<lparr>userId = ''u2'', email = ''bo@fors.org'', roleName = ''User''\<rparr>"

text \<open>A token codec that accepts three tokens and rejects every other string.\<close>

definition demo_verify :: "string \<Rightarrow> claims option" where
  "demo_verify t =
     (if t = ''tok-ada'' then Some ada
      else if t = ''tok-root'' then Some root
      else if t = ''tok-bo'' then Some bo
      else None)"

text \<open>
  A codec for a token issued to the field officer while her role was Admin: the token
  still verifies, and its payload still says Admin, after she has been given the role
  User that \<open>demo_store\<close> records.
\<close>

definition stale_verify :: "string \<Rightarrow> claims option" where
  "stale_verify t = (if t = ''tok-ada-old'' then Some (ada\<lparr>roleName := ''Admin''\<rparr>) else None)"

definition empty_body :: farmer_body where
  "empty_body =
     \<lparr>fullName = None, mobileNumber = None, dateOfBirth = None, age = None, gender = None,
      farmerTypeId = None, countryName = None, stateName = None, districtName = None,
      villageTractName = None, villageName = None, projectId = None, latitude = None,
      longitude = None\<rparr>"

definition new_farmer :: farmer_body where
  "new_farmer =
     empty_body\<lparr>fullName := Some ''Eze'', farmerTypeId := Some 1, projectId := Some 1\<rparr>"

text \<open>A password check, a token signer and a login request for the field officer.\<close>

definition demo_compare :: "string \<Rightarrow> string \<Rightarrow> bool" where
  "demo_compare pw hash \<longleftrightarrow> pw = ''secret'' \<and> hash = ''h1''"

definition demo_sign :: "claims \<Rightarrow> string" where
  "demo_sign c = ''jwt:'' @ userId c @ '':'' @ roleName c"

definition ada_login :: login_body where
  "ada_login = \<lparr>lb_email = Some ''ada@fors.org'', lb_password = Some ''secret''\<rparr>"

section \<open>Properties\<close>

subsection \<open>Lookups\<close>

lemma single_filter_Some:
  "single (filter P xs) = Some x \<Longrightarrow> x \<in> set xs \<and> P x"
proof -
  assume a: "single (filter P xs) = Some x"
  then have "filter P xs = [x]"
    by (auto simp: single_def split: list.splits)
  then have "x \<in> set (filter P xs)" by simp
  then show ?thesis by simp
qed

lemma find_distinct_key:
  "distinct (map k xs) \<Longrightarrow> x \<in> set xs \<Longrightarrow> find (\<lambda>y. k y = k x) xs = Some x"
  by (induction xs) (auto simp: image_iff)

lemma single_distinct_key:
  "distinct (map k xs) \<Longrightarrow> x \<in> set xs \<Longrightarrow> single (filter (\<lambda>y. k y = k x) xs) = Some x"
proof (induction xs)
  case Nil
  then show ?case by simp
next
  case (Cons a xs)
  show ?case
  proof (cases "a = x")
    case True
    with Cons.prems have "filter (\<lambda>y. k y = k x) xs = []"
      by (auto simp: filter_empty_conv image_iff)
    with True show ?thesis by (simp add: single_def)
  next
    case False
    with Cons.prems have "x \<in> set xs" "k a \<noteq> k x" "distinct (map k xs)"
      by (auto simp: image_iff)
    with Cons.IH show ?thesis by simp
  qed
qed

lemma hasPermission_iff:
  assumes "distinct (map p_id (permissions st))"
  shows "hasPermission st role code \<longleftrightarrow> code \<in> linked_codes st (r_id role)"
proof
  assume "hasPermission st role code"
  then obtain rp p where rp: "rp \<in> set (role_permissions st)" "rp_role_id rp = r_id role"
    and f: "find (\<lambda>p. p_id p = rp_permission_id rp) (permissions st) = Some p"
    and c: "p_permission_code p = code"
    by (auto simp: hasPermission_def embed_one_def list_ex_iff split: option.splits)
  from f have "p \<in> set (permissions st)" "p_id p = rp_permission_id rp"
    by (auto simp: find_Some_iff)
  with rp c show "code \<in> linked_codes st (r_id role)"
    by (auto simp: linked_codes_def)
next
  assume "code \<in> linked_codes st (r_id role)"
  then obtain rp p where rp: "rp \<in> set (role_permissions st)" "rp_role_id rp = r_id role"
    and p: "p \<in> set (permissions st)" "p_id p = rp_permission_id rp"
    and c: "p_permission_code p = code"
    by (auto simp: linked_codes_def)
  from find_distinct_key [OF assms p(1)] p(2)
  have "find (\<lambda>q. p_id q = rp_permission_id rp) (permissions st) = Some p" by simp
  with rp c show "hasPermission st role code"
    by (auto simp: hasPermission_def embed_one_def list_ex_iff)
qed

lemma schema_user_lookup:
  assumes "schema_ok st" and "u \<in> set (users st)" and "userId user = u_id u"
  shows "single (filter (\<lambda>x. u_id x = userId user) (users st)) = Some u"
proof -
  from assms(1) have "distinct (map u_id (users st))" by (simp add: schema_ok_def)
  from single_distinct_key [OF this assms(2)] assms(3) show ?thesis by simp
qed

lemma schema_role_lookup:
  assumes "schema_ok st" and "r \<in> set (roles st)" and "r_id r = rid"
  shows "embed_one (\<lambda>x. r_id x = rid) (roles st) = Some r"
proof -
  from assms(1) have "distinct (map r_id (roles st))" by (simp add: schema_ok_def)
  from find_distinct_key [OF this assms(2)] assms(3) show ?thesis
    by (simp add: embed_one_def)
qed

lemma schema_role_exists:
  assumes "schema_ok st" and "u \<in> set (users st)"
  obtains r where "r \<in> set (roles st)" and "r_id r = u_role_id u"
proof -
  from assms(1) have "list_all (\<lambda>u. list_ex (\<lambda>r. r_id r = u_role_id u) (roles st)) (users st)"
    by (simp add: schema_ok_def)
  with assms(2) show ?thesis using that
    by (auto simp: list_all_iff list_ex_iff)
qed

lemma authorizePermission_found:
  assumes "single (filter (\<lambda>x. u_id x = userId user) (users st)) = Some u"
    and "embed_one (\<lambda>x. r_id x = u_role_id u) (roles st) = Some r"
  shows "authorizePermission code st user =
           (if hasPermission st r code then Next ()
            else Responded (Response 403
                   (Message (''Access denied. Requires permission: '' @ code))))"
  using assms by (simp add: authorizePermission_def)

subsection \<open>The Authentication Gate\<close>

text \<open>
  C2 as stated: a request whose bearer token fails verification is answered with status
  401. The gate answers it with 403; the request below carries a token the codec
  rejects.
\<close>

theorem invalid_token_401_counterexample:
  "bearer_token (Some ''Bearer forged'') = Some ''forged'' \<and>
   demo_verify ''forged'' = None \<and>
   route demo_verify [] farmers_get demo_store (Some ''Bearer forged'') =
     (Some (Response 403 (Message ''Invalid or expired token.'')), demo_store) \<and>
   map_option status (fst (route demo_verify [] farmers_get demo_store (Some ''Bearer forged'')))
     \<noteq> Some 401"
  by (simp add: route_def authenticateToken_def bearer_token_def demo_verify_def)

text \<open>
  C2, amended. For every request carrying a bearer token that fails verification (bad
  signature, malformed, or expired), every protected route answers 403 with the message
  "Invalid or expired token."; the answer and the store are the same whatever the
  middlewares and the handler mounted behind the gate are, so neither runs. Status 401
  is kept for a request with no token.
\<close>

theorem invalid_token_403:
  assumes "bearer_token authHeader = Some token" and "verify token = None"
  shows "route verify codes handler st authHeader =
           (Some (Response 403 (Message ''Invalid or expired token.'')), st)"
  using assms by (simp add: route_def authenticateToken_def)

theorem invalid_token_403_witness:
  "bearer_token (Some ''Bearer forged'') = Some ''forged'' \<and>
   demo_verify ''forged'' = None \<and>
   route demo_verify [''EDIT_ROLES''] (farmers_delete ''f1'') demo_store (Some ''Bearer forged'') =
     (Some (Response 403 (Message ''Invalid or expired token.'')), demo_store)"
proof -
  have b: "bearer_token (Some ''Bearer forged'') = Some ''forged''"
    by (simp add: bearer_token_def)
  have v: "demo_verify ''forged'' = None"
    by (simp add: demo_verify_def)
  from invalid_token_403 [where verify = demo_verify and codes = "[''EDIT_ROLES'']"
         and handler = "farmers_delete ''f1''" and st = demo_store, OF b v] b v
  show ?thesis by simp
qed

text \<open>
  C3. For every request whose token verifies but whose subject has no row in the users
  table, or a row with \<open>is_active\<close> false or \<open>activation_status\<close> false, every
  protected route answers 403 and leaves the store as it was, whatever the middlewares
  and the handler behind the gate are.
\<close>

theorem inactive_identity_403:
  assumes "bearer_token authHeader = Some token" and "verify token = Some user"
    and "\<forall>u \<in> set (users st). u_id u = userId user \<longrightarrow>
           u_is_active u = False \<or> u_activation_status u = False"
  shows "route verify codes handler st authHeader =
           (Some (Response 403 (Message ''User is inactive or not found.'')), st)"
proof (cases "single (filter (\<lambda>u. u_id u = userId user) (users st))")
  case None
  with assms(1,2) show ?thesis by (simp add: route_def authenticateToken_def)
next
  case (Some data)
  from single_filter_Some [OF Some] assms(3)
  have "u_is_active data = False \<or> u_activation_status data = False" by blast
  with Some assms(1,2) show ?thesis by (auto simp: route_def authenticateToken_def)
qed

theorem inactive_identity_403_witness:
  "bearer_token (Some ''Bearer tok-bo'') = Some ''tok-bo'' \<and>
   demo_verify ''tok-bo'' = Some bo \<and>
   u_id (users demo_store ! 2) = userId bo \<and> u_is_active (users demo_store ! 2) = False \<and>
   route demo_verify [] (farmers_delete ''f1'') demo_store (Some ''Bearer tok-bo'') =
     (Some (Response 403 (Message ''User is inactive or not found.'')), demo_store) \<and>
   route (\<lambda>t. Some (bo\<lparr>userId := ''gone''\<rparr>)) [] (farmers_delete ''f1'') demo_store
       (Some ''Bearer tok-bo'') =
     (Some (Response 403 (Message ''User is inactive or not found.'')), demo_store)"
proof -
  have b: "bearer_token (Some ''Bearer tok-bo'') = Some ''tok-bo''"
    by (simp add: bearer_token_def)
  have v: "demo_verify ''tok-bo'' = Some bo"
    by (simp add: demo_verify_def)
  have v': "(\<lambda>t. Some (bo\<lparr>userId := ''gone''\<rparr>)) ''tok-bo'' = Some (bo\<lparr>userId := ''gone''\<rparr>)"
    by simp
  have h: "\<forall>u \<in> set (users demo_store). u_id u = userId bo \<longrightarrow>
             u_is_active u = False \<or> u_activation_status u = False"
    by (simp add: demo_store_def bo_def)
  have h': "\<forall>u \<in> set (users demo_store). u_id u = userId (bo\<lparr>userId := ''gone''\<rparr>) \<longrightarrow>
             u_is_active u = False \<or> u_activation_status u = False"
    by (simp add: demo_store_def bo_def)
  have c: "u_id (users demo_store ! 2) = userId bo \<and> u_is_active (users demo_store ! 2) = False"
    by (simp add: demo_store_def bo_def)
  from inactive_identity_403 [where verify = demo_verify and codes = "[]"
         and handler = "farmers_delete ''f1''", OF b v h]
       inactive_identity_403 [where verify = "\<lambda>t. Some (bo\<lparr>userId := ''gone''\<rparr>)"
         and codes = "[]" and handler = "farmers_delete ''f1''", OF b v' h'] b v c
  show ?thesis by simp
qed

subsection \<open>The Permission Resolver\<close>

text \<open>
  C4. For every identity of the store and every required permission code,
  \<open>authorizePermission\<close> grants (calls \<open>next()\<close>) if and only if the code is one of
  the codes linked to the identity's role by the Role-Permission Link table, and
  otherwise answers 403 naming the required code. Codes are compared by equality of
  strings: a code that is a proper prefix of a linked code is denied.
\<close>

theorem authorize_iff_linked:
  assumes "schema_ok st" and "u \<in> set (users st)" and "userId user = u_id u"
  shows "authorizePermission code st user =
           (if code \<in> linked_codes st (u_role_id u) then Next ()
            else Responded (Response 403
                   (Message (''Access denied. Requires permission: '' @ code))))"
proof -
  from assms(1) have dp: "distinct (map p_id (permissions st))"
    by (simp add: schema_ok_def)
  note lu = schema_user_lookup [OF assms]
  from schema_role_exists [OF assms(1,2)]
  obtain r where r: "r \<in> set (roles st)" "r_id r = u_role_id u" .
  note lr = schema_role_lookup [OF assms(1) r]
  from hasPermission_iff [OF dp, of r code] r(2)
  have "hasPermission st r code \<longleftrightarrow> code \<in> linked_codes st (u_role_id u)" by simp
  with authorizePermission_found [OF lu lr] show ?thesis by simp
qed

theorem authorize_iff_linked_witness:
  "schema_ok demo_store \<and>
   authorizePermission ''EDIT_FARMER_RECORDS'' demo_store ada = Next () \<and>
   authorizePermission ''EDIT_FARMER'' demo_store ada =
     Responded (Response 403 (Message ''Access denied. Requires permission: EDIT_FARMER''))"
proof -
  have ok: "schema_ok demo_store"
    by (simp add: schema_ok_def demo_store_def)
  have u: "users demo_store ! 1 \<in> set (users demo_store)"
    by (simp add: demo_store_def)
  have i: "userId ada = u_id (users demo_store ! 1)"
    by (simp add: demo_store_def ada_def)
  have r: "u_role_id (users demo_store ! 1) = 2"
    by (simp add: demo_store_def)
  have l1: "''EDIT_FARMER_RECORDS'' \<in> linked_codes demo_store 2"
    by (simp add: linked_codes_def demo_store_def)
  have l2: "''EDIT_FARMER'' \<notin> linked_codes demo_store 2"
    by (simp add: linked_codes_def demo_store_def)
  from authorize_iff_linked [OF ok u i, of "''EDIT_FARMER_RECORDS''"]
       authorize_iff_linked [OF ok u i, of "''EDIT_FARMER''"] ok r l1 l2
  show ?thesis by simp
qed

text \<open>
  C1 as stated: an identity whose role is Admin is granted every code without a link
  row. In the store below the administrator's role is named Admin, in the store and in
  the token, and has no link to a permission with code \<open>VIEW_ROLES\<close>; the resolver
  denies.
\<close>

theorem admin_bypass_counterexample:
  "u_id (users demo_store ! 0) = userId root \<and>
   u_role_id (users demo_store ! 0) = r_id (roles demo_store ! 0) \<and>
   r_role_name (roles demo_store ! 0) = ''Admin'' \<and>
   roleName root = ''Admin'' \<and>
   ''VIEW_ROLES'' \<notin> linked_codes demo_store (r_id (roles demo_store ! 0)) \<and>
   authorizePermission ''VIEW_ROLES'' demo_store root =
     Responded (Response 403 (Message ''Access denied. Requires permission: VIEW_ROLES''))"
  by (simp add: demo_store_def root_def authorizePermission_def hasPermission_def
      single_def embed_one_def linked_codes_def)

text \<open>
  C1, amended. The Permission Resolver has no short-circuit for the Admin role: an
  identity whose role is named Admin is granted a code if and only if a link row joins
  that role to a permission with the code. (The seed data of README.md links every
  permission to Admin.)
\<close>

theorem admin_granted_iff_linked:
  assumes "schema_ok st" and "u \<in> set (users st)" and "userId user = u_id u"
    and "r \<in> set (roles st)" and "r_id r = u_role_id u" and "r_role_name r = ''Admin''"
  shows "authorizePermission code st user = Next () \<longleftrightarrow> code \<in> linked_codes st (r_id r)"
proof -
  from assms(1) have dp: "distinct (map p_id (permissions st))"
    by (simp add: schema_ok_def)
  note lu = schema_user_lookup [OF assms(1,2,3)]
  note lr = schema_role_lookup [OF assms(1,4,5)]
  from authorizePermission_found [OF lu lr] hasPermission_iff [OF dp, of r code]
  show ?thesis by simp
qed

theorem admin_granted_iff_linked_witness:
  "schema_ok demo_store \<and> r_role_name (roles demo_store ! 0) = ''Admin'' \<and>
   authorizePermission ''EDIT_ROLES'' demo_store root = Next () \<and>
   ''EDIT_ROLES'' \<in> linked_codes demo_store 1 \<and>
   authorizePermission ''ADD_FARMER_RECORDS'' demo_store root \<noteq> Next () \<and>
   ''ADD_FARMER_RECORDS'' \<notin> linked_codes demo_store 1"
proof -
  have ok: "schema_ok demo_store"
    by (simp add: schema_ok_def demo_store_def)
  have u: "users demo_store ! 0 \<in> set (users demo_store)"
    and i: "userId root = u_id (users demo_store ! 0)"
    and r: "roles demo_store ! 0 \<in> set (roles demo_store)"
    and k: "r_id (roles demo_store ! 0) = u_role_id (users demo_store ! 0)"
    and n: "r_role_name (roles demo_store ! 0) = ''Admin''"
    and k1: "r_id (roles demo_store ! 0) = 1"
    by (simp_all add: demo_store_def root_def)
  have l1: "''EDIT_ROLES'' \<in> linked_codes demo_store 1"
    and l2: "''ADD_FARMER_RECORDS'' \<notin> linked_codes demo_store 1"
    by (simp_all add: linked_codes_def demo_store_def)
  from admin_granted_iff_linked [OF ok u i r k n, of "''EDIT_ROLES''"]
       admin_granted_iff_linked [OF ok u i r k n, of "''ADD_FARMER_RECORDS''"]
       ok n k1 l1 l2
  show ?thesis by simp
qed

subsection \<open>The Project-Scope Filter\<close>

lemma assigned_projects_filter:
  "assigned_projects st uid =
     set (map pu_project_id (filter (\<lambda>p. pu_user_id p = uid) (project_users st)))"
  by (auto simp: assigned_projects_def)

text \<open>
  C6 as stated: for every non-administrator identity the read returns only rows of the
  projects the identity is assigned to. The field officer has the role User in the store
  and is assigned to project 1 only. Her token was issued while her role was Admin and
  still says so; with it GET /api/farmers answers the farmer of project 2 as well.
\<close>

theorem farmers_get_stale_admin_counterexample:
  "stale_verify ''tok-ada-old'' = Some (ada\<lparr>roleName := ''Admin''\<rparr>) \<and>
   u_id (users demo_store ! 1) = userId ada \<and>
   u_role_id (users demo_store ! 1) = r_id (roles demo_store ! 1) \<and>
   r_role_name (roles demo_store ! 1) = ''User'' \<and>
   f_project_id (farmers demo_store ! 1) = Some 2 \<and>
   2 \<notin> assigned_projects demo_store (userId ada) \<and>
   route stale_verify [] farmers_get demo_store (Some ''Bearer tok-ada-old'') =
     (Some (Response 200 (FarmerList [farmers demo_store ! 0, farmers demo_store ! 1])),
      demo_store)"
  by (simp add: route_def authenticateToken_def bearer_token_def stale_verify_def
      single_def farmers_get_def assigned_projects_def demo_store_def ada_def)

text \<open>
  C6, amended. For every request whose token carries a role name other than Admin,
  GET /api/farmers answers 200 with exactly the farmer rows whose \<open>project_id\<close> is a
  project the token's subject is assigned to; when the subject is assigned to no project
  the answer is 200 with the empty list. The store is not changed. The role the store
  records for the identity is not consulted.
\<close>

theorem farmers_get_scoped:
  assumes "roleName user \<noteq> ''Admin''"
  shows "\<exists>rows. farmers_get st user = (Some (Response 200 (FarmerList rows)), st) \<and>
           set rows = {f \<in> set (farmers st).
                         \<exists>p \<in> assigned_projects st (userId user). f_project_id f = Some p} \<and>
           (assigned_projects st (userId user) = {} \<longrightarrow> rows = [])"
proof (cases "filter (\<lambda>p. pu_user_id p = userId user) (project_users st) = []")
  case True
  then have e: "assigned_projects st (userId user) = {}"
    by (auto simp: assigned_projects_filter filter_empty_conv)
  from True assms have "farmers_get st user = (Some (Response 200 (FarmerList [])), st)"
    by (simp add: farmers_get_def)
  with e show ?thesis by simp
next
  case False
  then have ne: "assigned_projects st (userId user) \<noteq> {}"
    by (auto simp: assigned_projects_filter filter_empty_conv)
  have s: "set (map pu_project_id (filter (\<lambda>p. pu_user_id p = userId user) (project_users st)))
             = assigned_projects st (userId user)"
    by (simp add: assigned_projects_filter)
  from False assms
  have "farmers_get st user =
          (Some (Response 200 (FarmerList
             (filter (\<lambda>f. case f_project_id f of None \<Rightarrow> False
                          | Some p \<Rightarrow> p \<in> assigned_projects st (userId user)) (farmers st)))), st)"
    unfolding farmers_get_def Let_def s [symmetric] by simp
  moreover have "set (filter (\<lambda>f. case f_project_id f of None \<Rightarrow> False
                          | Some p \<Rightarrow> p \<in> assigned_projects st (userId user)) (farmers st))
      = {f \<in> set (farmers st).
           \<exists>p \<in> assigned_projects st (userId user). f_project_id f = Some p}"
    by (auto split: option.splits)
  ultimately show ?thesis using ne by simp
qed

theorem farmers_get_scoped_witness:
  "roleName ada \<noteq> ''Admin'' \<and>
   farmers_get demo_store ada =
     (Some (Response 200 (FarmerList [farmers demo_store ! 0])), demo_store) \<and>
   roleName bo \<noteq> ''Admin'' \<and> assigned_projects demo_store (userId bo) = {} \<and>
   farmers_get demo_store bo = (Some (Response 200 (FarmerList [])), demo_store)"
proof -
  have a: "roleName ada \<noteq> ''Admin''" and b: "roleName bo \<noteq> ''Admin''"
    by (simp_all add: ada_def bo_def)
  have e: "assigned_projects demo_store (userId bo) = {}"
    by (simp add: assigned_projects_def demo_store_def bo_def)
  from farmers_get_scoped [OF b, of demo_store] e
  have 1: "farmers_get demo_store bo = (Some (Response 200 (FarmerList [])), demo_store)"
    by auto
  have 2: "farmers_get demo_store ada =
     (Some (Response 200 (FarmerList [farmers demo_store ! 0])), demo_store)"
    by (simp add: farmers_get_def demo_store_def ada_def)
  from 1 2 a b e show ?thesis by simp
qed

lemma projectUser_None:
  assumes "p \<notin> assigned_projects st uid"
  shows "projectUser st (Some p) uid = None"
proof -
  from assms have "filter (\<lambda>pu. Some (pu_project_id pu) = Some p \<and> pu_user_id pu = uid)
                      (project_users st) = []"
    by (auto simp: assigned_projects_filter filter_empty_conv)
  then show ?thesis by (simp add: projectUser_def single_def)
qed

lemma projectUser_Some:
  assumes "distinct (map (\<lambda>pu. (pu_project_id pu, pu_user_id pu)) (project_users st))"
    and "p \<in> assigned_projects st uid"
  shows "\<exists>pu. projectUser st (Some p) uid = Some pu"
proof -
  from assms(2) obtain pu where pu: "pu \<in> set (project_users st)"
    "pu_project_id pu = p" "pu_user_id pu = uid"
    by (auto simp: assigned_projects_filter)
  from single_distinct_key [OF assms(1) pu(1)] pu(2,3)
  have "single (filter (\<lambda>y. (pu_project_id y, pu_user_id y) = (p, uid)) (project_users st))
          = Some pu" by simp
  moreover have "(\<lambda>y. (pu_project_id y, pu_user_id y) = (p, uid))
                 = (\<lambda>pu. Some (pu_project_id pu) = Some p \<and> pu_user_id pu = uid)"
    by auto
  ultimately show ?thesis by (simp add: projectUser_def)
qed

lemma catch_farmer_sent: "catch_farmer e (Some r) st = (Some r, st)"
  by (simp add: catch_farmer_def send_def)

lemma inline_authorize_cases:
  "inline_authorize code st user = None \<or>
   inline_authorize code st user =
     Some (Response 403 (Message ''User permissions not found or access denied.'')) \<or>
   inline_authorize code st user =
     Some (Response 403 (Message (''Access denied. Requires permission: '' @ code)))"
  by (simp add: inline_authorize_def authorizePermission_def split: option.splits)

lemma update_farmer_ok:
  assumes "single (filter (\<lambda>f. f_id f = i) (farmers st)) = Some existingFarmer"
    and "farmers_fk_ok st (upd existingFarmer)"
  shows "update_farmer st i upd =
           Inr (st\<lparr>farmers := map (\<lambda>f. if f_id f = i then upd existingFarmer else f)
                                  (farmers st)\<rparr>,
                upd existingFarmer)"
proof -
  from assms(1) have f: "filter (\<lambda>f. f_id f = i) (farmers st) = [existingFarmer]"
    by (auto simp: single_def split: list.splits)
  have "\<forall>x \<in> set (farmers st). f_id x = i \<longrightarrow> x = existingFarmer"
  proof (intro ballI impI)
    fix x assume "x \<in> set (farmers st)" "f_id x = i"
    then have "x \<in> set (filter (\<lambda>f. f_id f = i) (farmers st))" by simp
    with f show "x = existingFarmer" by simp
  qed
  then have m: "map (\<lambda>f. if f_id f = i then upd f else f) (farmers st)
                = map (\<lambda>f. if f_id f = i then upd existingFarmer else f) (farmers st)"
    by (intro map_cong) auto
  from f assms(2) m show ?thesis
    by (simp add: update_farmer_def single_def)
qed

text \<open>
  C7 as stated: every non-administrator update that requests a reassignment is refused
  when the destination project is not assigned to the identity. The field officer, whose
  stored role is User and who is not assigned to project 2, sends the token that still
  says Admin and moves farmer \<open>f1\<close> into project 2; the answer is 200.
\<close>

theorem farmers_put_stale_admin_counterexample:
  "stale_verify ''tok-ada-old'' = Some (ada\<lparr>roleName := ''Admin''\<rparr>) \<and>
   u_id (users demo_store ! 1) = userId ada \<and>
   u_role_id (users demo_store ! 1) = r_id (roles demo_store ! 1) \<and>
   r_role_name (roles demo_store ! 1) = ''User'' \<and>
   f_id (farmers demo_store ! 0) = ''f1'' \<and>
   2 \<notin> assigned_projects demo_store (userId ada) \<and>
   fst (route stale_verify [] (farmers_put ''f1'' (empty_body\<lparr>projectId := Some 2\<rparr>))
          demo_store (Some ''Bearer tok-ada-old'')) =
     Some (Response 200 (FarmerResult ''Farmer record updated successfully.''
        ((farmers demo_store ! 0)\<lparr>f_project_id := Some 2\<rparr>))) \<and>
   map f_project_id
     (farmers (snd (route stale_verify [] (farmers_put ''f1'' (empty_body\<lparr>projectId := Some 2\<rparr>))
                      demo_store (Some ''Bearer tok-ada-old'')))) = [Some 2, Some 2]"
  by (simp add: route_def authenticateToken_def bearer_token_def stale_verify_def
      authorizePermission_def hasPermission_def single_def embed_one_def
      farmers_put_def projectUser_def inline_authorize_def
      update_farmer_def farmers_fk_ok_def fk_ok_def
      updateData_def updateData_keys_def opt_key_def keep_def assigned_projects_def
      send_def catch_farmer_def falsy_num_def Let_def
      empty_body_def demo_store_def ada_def)

text \<open>
  C7, amended. For every farmer update whose token carries a role name other than Admin
  and whose body names a project (a reassignment), the scope check looks up the
  destination project, the one written into the row, and not the project the row is in.
  When the token's subject is not assigned to the destination the answer is 403 and the
  store is unchanged, whatever the current project of the row is. When it is assigned to
  the destination the scope check does not refuse, again whatever the current project
  is; and when moreover the resolver grants \<open>EDIT_FARMER_RECORDS\<close> and the store
  accepts the row, the answer is 200 and the one row with the key is replaced by the row
  \<open>written\<close>: its \<open>project_id\<close> is the destination, each field the body supplies has
  the supplied value, and every other field is as before.
\<close>

theorem farmers_put_checks_destination:
  fixes st :: store and user :: claims and b :: farmer_body and existingFarmer :: farmers_row
  assumes "roleName user \<noteq> ''Admin''"
    and "single (filter (\<lambda>f. f_id f = i) (farmers st)) = Some existingFarmer"
    and "projectId b = Some dest" and "dest \<noteq> 0"
  defines "written \<equiv>
     \<lparr>f_id = f_id existingFarmer,
      f_full_name = (case fullName b of None \<Rightarrow> f_full_name existingFarmer | Some v \<Rightarrow> v),
      f_mobile_number =
        (case mobileNumber b of None \<Rightarrow> f_mobile_number existingFarmer | Some v \<Rightarrow> Some v),
      f_date_of_birth =
        (case dateOfBirth b of None \<Rightarrow> f_date_of_birth existingFarmer | Some v \<Rightarrow> Some v),
      f_age = (case age b of None \<Rightarrow> f_age existingFarmer | Some v \<Rightarrow> Some v),
      f_gender = (case gender b of None \<Rightarrow> f_gender existingFarmer | Some v \<Rightarrow> Some v),
      f_farmer_type_id =
        (case farmerTypeId b of None \<Rightarrow> f_farmer_type_id existingFarmer | Some v \<Rightarrow> Some v),
      f_country_name =
        (case countryName b of None \<Rightarrow> f_country_name existingFarmer | Some v \<Rightarrow> Some v),
      f_state_name =
        (case stateName b of None \<Rightarrow> f_state_name existingFarmer | Some v \<Rightarrow> Some v),
      f_district_name =
        (case districtName b of None \<Rightarrow> f_district_name existingFarmer | Some v \<Rightarrow> Some v),
      f_village_tract_name =
        (case villageTractName b of None \<Rightarrow> f_village_tract_name existingFarmer
         | Some v \<Rightarrow> Some v),
      f_village_name =
        (case villageName b of None \<Rightarrow> f_village_name existingFarmer | Some v \<Rightarrow> Some v),
      f_project_id = Some dest,
      f_added_by_user_id = f_added_by_user_id existingFarmer,
      f_latitude = (case latitude b of None \<Rightarrow> f_latitude existingFarmer | Some v \<Rightarrow> Some v),
      f_longitude =
        (case longitude b of None \<Rightarrow> f_longitude existingFarmer | Some v \<Rightarrow> Some v)\<rparr>"
  shows "(dest \<notin> assigned_projects st (userId user) \<longrightarrow>
            farmers_put i b st user =
              (Some (Response 403
                 (Message ''You can only edit farmers in projects you are assigned to.'')), st))
       \<and> (dest \<in> assigned_projects st (userId user) \<and>
            distinct (map (\<lambda>pu. (pu_project_id pu, pu_user_id pu)) (project_users st)) \<longrightarrow>
            fst (farmers_put i b st user) \<noteq>
              Some (Response 403
                 (Message ''You can only edit farmers in projects you are assigned to.'')))
       \<and> (dest \<in> assigned_projects st (userId user) \<and>
            distinct (map (\<lambda>pu. (pu_project_id pu, pu_user_id pu)) (project_users st)) \<and>
            authorizePermission ''EDIT_FARMER_RECORDS'' st user = Next () \<and>
            farmers_fk_ok st written \<longrightarrow>
            farmers_put i b st user =
              (Some (Response 200
                 (FarmerResult ''Farmer record updated successfully.'' written)),
               st\<lparr>farmers := map (\<lambda>f. if f_id f = i then written else f) (farmers st)\<rparr>))"
proof (intro conjI impI)
  assume "dest \<notin> assigned_projects st (userId user)"
  from projectUser_None [OF this] assms(1-4)
  show "farmers_put i b st user =
          (Some (Response 403
             (Message ''You can only edit farmers in projects you are assigned to.'')), st)"
    by (simp add: farmers_put_def falsy_num_def)
next
  assume a: "dest \<in> assigned_projects st (userId user) \<and>
     distinct (map (\<lambda>pu. (pu_project_id pu, pu_user_id pu)) (project_users st))"
  then obtain pu where pu: "projectUser st (Some dest) (userId user) = Some pu"
    using projectUser_Some by blast
  have k: "updateData_keys b \<noteq> []" by (simp add: updateData_keys_def)
  from inline_authorize_cases [of "''EDIT_FARMER_RECORDS''" st user]
  show "fst (farmers_put i b st user) \<noteq>
          Some (Response 403
             (Message ''You can only edit farmers in projects you are assigned to.''))"
  proof (elim disjE)
    assume n: "inline_authorize ''EDIT_FARMER_RECORDS'' st user = None"
    with pu assms(1-4) k show ?thesis
      by (auto simp: farmers_put_def falsy_num_def send_def catch_farmer_def
          split: sum.splits prod.splits)
  next
    assume n: "inline_authorize ''EDIT_FARMER_RECORDS'' st user =
     Some (Response 403 (Message ''User permissions not found or access denied.''))"
    with pu assms(1-4) k show ?thesis
      by (auto simp: farmers_put_def falsy_num_def send_def catch_farmer_sent
          split: sum.splits prod.splits)
  next
    assume n: "inline_authorize ''EDIT_FARMER_RECORDS'' st user =
     Some (Response 403 (Message (''Access denied. Requires permission: '' @ ''EDIT_FARMER_RECORDS'')))"
    with pu assms(1-4) k show ?thesis
      by (auto simp: farmers_put_def falsy_num_def send_def catch_farmer_sent
          split: sum.splits prod.splits)
  qed
next
  assume a: "dest \<in> assigned_projects st (userId user) \<and>
     distinct (map (\<lambda>pu. (pu_project_id pu, pu_user_id pu)) (project_users st)) \<and>
     authorizePermission ''EDIT_FARMER_RECORDS'' st user = Next () \<and>
     farmers_fk_ok st written"
  then obtain pu where pu: "projectUser st (Some dest) (userId user) = Some pu"
    using projectUser_Some by blast
  from a have n: "inline_authorize ''EDIT_FARMER_RECORDS'' st user = None"
    by (simp add: inline_authorize_def)
  have k: "updateData_keys b \<noteq> []" by (simp add: updateData_keys_def)
  have w: "updateData b (Some dest) existingFarmer = written"
    unfolding written_def
    by (cases existingFarmer) (simp add: updateData_def keep_def split: option.splits)
  from a w have "farmers_fk_ok st (updateData b (Some dest) existingFarmer)" by simp
  from update_farmer_ok [where upd = "updateData b (Some dest)", OF assms(2) this] w
  have u: "update_farmer st i (updateData b (Some dest)) =
             Inr (st\<lparr>farmers := map (\<lambda>f. if f_id f = i then written else f) (farmers st)\<rparr>,
                  written)"
    by simp
  from pu n k u assms(1-4)
  show "farmers_put i b st user =
          (Some (Response 200 (FarmerResult ''Farmer record updated successfully.'' written)),
           st\<lparr>farmers := map (\<lambda>f. if f_id f = i then written else f) (farmers st)\<rparr>)"
    by (simp add: farmers_put_def falsy_num_def send_def)
qed


theorem farmers_put_checks_destination_witness:
  "roleName ada \<noteq> ''Admin'' \<and>
   f_project_id (farmers demo_store ! 0) = Some 1 \<and>
   f_project_id (farmers demo_store ! 1) = Some 2 \<and>
   assigned_projects demo_store (userId ada) = {1} \<and>
   authorizePermission ''EDIT_FARMER_RECORDS'' demo_store ada = Next () \<and>
   farmers_put ''f1'' (empty_body\<lparr>projectId := Some 2\<rparr>) demo_store ada =
     (Some (Response 403
        (Message ''You can only edit farmers in projects you are assigned to.'')), demo_store) \<and>
   fst (farmers_put ''f2'' (empty_body\<lparr>fullName := Some ''Dayo B'', projectId := Some 1\<rparr>)
          demo_store ada) =
     Some (Response 200 (FarmerResult ''Farmer record updated successfully.''
        \<lparr>f_id = ''f2'', f_full_name = ''Dayo B'', f_mobile_number = None,
         f_date_of_birth = None, f_age = None, f_gender = None, f_farmer_type_id = Some 1,
         f_country_name = None, f_state_name = None, f_district_name = None,
         f_village_tract_name = None, f_village_name = None, f_project_id = Some 1,
         f_added_by_user_id = Some ''a1'', f_latitude = None, f_longitude = None\<rparr>)) \<and>
   farmers (snd (farmers_put ''f2''
                   (empty_body\<lparr>fullName := Some ''Dayo B'', projectId := Some 1\<rparr>)
                   demo_store ada)) =
     [farmers demo_store ! 0,
      \<lparr>f_id = ''f2'', f_full_name = ''Dayo B'', f_mobile_number = None,
       f_date_of_birth = None, f_age = None, f_gender = None, f_farmer_type_id = Some 1,
       f_country_name = None, f_state_name = None, f_district_name = None,
       f_village_tract_name = None, f_village_name = None, f_project_id = Some 1,
       f_added_by_user_id = Some ''a1'', f_latitude = None, f_longitude = None\<rparr>]"
proof -
  let ?b = "empty_body\<lparr>fullName := Some ''Dayo B'', projectId := Some 1\<rparr>"
  let ?w = "\<lparr>f_id = ''f2'', f_full_name = ''Dayo B'', f_mobile_number = None,
       f_date_of_birth = None, f_age = None, f_gender = None, f_farmer_type_id = Some 1,
       f_country_name = None, f_state_name = None, f_district_name = None,
       f_village_tract_name = None, f_village_name = None, f_project_id = Some 1,
       f_added_by_user_id = Some ''a1'', f_latitude = None, f_longitude = None\<rparr>"
  have r: "roleName ada \<noteq> ''Admin''" by (simp add: ada_def)
  have f1: "single (filter (\<lambda>f. f_id f = ''f1'') (farmers demo_store))
              = Some (farmers demo_store ! 0)"
    and f2: "single (filter (\<lambda>f. f_id f = ''f2'') (farmers demo_store))
              = Some (farmers demo_store ! 1)"
    by (simp_all add: demo_store_def single_def)
  have p: "f_project_id (farmers demo_store ! 0) = Some 1"
    "f_project_id (farmers demo_store ! 1) = Some 2"
    by (simp_all add: demo_store_def)
  have b2: "projectId (empty_body\<lparr>projectId := Some 2\<rparr>) = Some 2"
    and b1: "projectId ?b = Some 1"
    by simp_all
  have a: "assigned_projects demo_store (userId ada) = {1}"
    by (simp add: assigned_projects_def demo_store_def ada_def)
  have d: "distinct (map (\<lambda>pu. (pu_project_id pu, pu_user_id pu)) (project_users demo_store))"
    by (simp add: demo_store_def)
  have g: "authorizePermission ''EDIT_FARMER_RECORDS'' demo_store ada = Next ()"
    by (simp add: authorizePermission_def hasPermission_def single_def embed_one_def
        demo_store_def ada_def)
  have fk: "farmers_fk_ok demo_store ?w"
    by (simp add: farmers_fk_ok_def fk_ok_def demo_store_def)
  have n2: "(2::nat) \<noteq> 0" and n1: "(1::nat) \<noteq> 0" by simp_all
  from farmers_put_checks_destination [OF r f1 b2 n2] a
  have c1: "farmers_put ''f1'' (empty_body\<lparr>projectId := Some 2\<rparr>) demo_store ada =
     (Some (Response 403
        (Message ''You can only edit farmers in projects you are assigned to.'')), demo_store)"
    by simp
  have w: "\<lparr>f_id = f_id (farmers demo_store ! 1),
      f_full_name = (case fullName ?b of None \<Rightarrow> f_full_name (farmers demo_store ! 1) | Some v \<Rightarrow> v),
      f_mobile_number =
        (case mobileNumber ?b of None \<Rightarrow> f_mobile_number (farmers demo_store ! 1) | Some v \<Rightarrow> Some v),
      f_date_of_birth =
        (case dateOfBirth ?b of None \<Rightarrow> f_date_of_birth (farmers demo_store ! 1) | Some v \<Rightarrow> Some v),
      f_age = (case age ?b of None \<Rightarrow> f_age (farmers demo_store ! 1) | Some v \<Rightarrow> Some v),
      f_gender = (case gender ?b of None \<Rightarrow> f_gender (farmers demo_store ! 1) | Some v \<Rightarrow> Some v),
      f_farmer_type_id =
        (case farmerTypeId ?b of None \<Rightarrow> f_farmer_type_id (farmers demo_store ! 1) | Some v \<Rightarrow> Some v),
      f_country_name =
        (case countryName ?b of None \<Rightarrow> f_country_name (farmers demo_store ! 1) | Some v \<Rightarrow> Some v),
      f_state_name =
        (case stateName ?b of None \<Rightarrow> f_state_name (farmers demo_store ! 1) | Some v \<Rightarrow> Some v),
      f_district_name =
        (case districtName ?b of None \<Rightarrow> f_district_name (farmers demo_store ! 1) | Some v \<Rightarrow> Some v),
      f_village_tract_name =
        (case villageTractName ?b of None \<Rightarrow> f_village_tract_name (farmers demo_store ! 1)
         | Some v \<Rightarrow> Some v),
      f_village_name =
        (case villageName ?b of None \<Rightarrow> f_village_name (farmers demo_store ! 1) | Some v \<Rightarrow> Some v),
      f_project_id = Some 1,
      f_added_by_user_id = f_added_by_user_id (farmers demo_store ! 1),
      f_latitude = (case latitude ?b of None \<Rightarrow> f_latitude (farmers demo_store ! 1) | Some v \<Rightarrow> Some v),
      f_longitude =
        (case longitude ?b of None \<Rightarrow> f_longitude (farmers demo_store ! 1) | Some v \<Rightarrow> Some v)\<rparr>
      = ?w"
    by (simp add: demo_store_def empty_body_def)
  have m: "map (\<lambda>f. if f_id f = ''f2'' then ?w else f) (farmers demo_store)
           = [farmers demo_store ! 0, ?w]"
    by (simp add: demo_store_def)
  from farmers_put_checks_destination [OF r f2 b1 n1, unfolded w] a d g fk
  have c2: "farmers_put ''f2'' ?b demo_store ada =
              (Some (Response 200 (FarmerResult ''Farmer record updated successfully.'' ?w)),
               demo_store\<lparr>farmers := map (\<lambda>f. if f_id f = ''f2'' then ?w else f)
                                         (farmers demo_store)\<rparr>)"
    by simp
  from r p a g c1 show ?thesis
    unfolding c2 by (simp add: m)
qed

subsection \<open>The role name carried by the token\<close>

lemma authorizePermission_roleName [simp]:
  "authorizePermission code st (user\<lparr>roleName := r\<rparr>) = authorizePermission code st user"
  by (simp add: authorizePermission_def)

lemma inline_authorize_roleName [simp]:
  "inline_authorize code st (user\<lparr>roleName := r\<rparr>) = inline_authorize code st user"
  by (simp add: inline_authorize_def)

lemma run_middlewares_roleName [simp]:
  "run_middlewares codes st (user\<lparr>roleName := r\<rparr>) = run_middlewares codes st user"
  by (induction codes) (simp_all split: outcome.splits)




subsection \<open>Writes after a denial\<close>

text \<open>
  C5 says that a farmer create, update or delete request which the Permission Resolver
  denies is answered Forbidden and performs no mutation. The handlers call the resolver
  inline and go on when it returns, and it returns normally after answering 403. In the
  store \<open>demo_store\<close>: the field officer, assigned to project 1 and without
  \<open>ADD_FARMER_RECORDS\<close>, posts a farmer for project 1, is answered 403, and the row is
  inserted; she deletes farmer \<open>f1\<close> without \<open>DELETE_FARMER_RECORDS\<close>, is answered
  403, and the row is gone; the administrator, whose role lacks
  \<open>EDIT_FARMER_RECORDS\<close>, renames farmer \<open>f1\<close>, is answered 403, and the row is
  renamed.
\<close>

theorem farmers_write_after_denial:
  "authorizePermission ''ADD_FARMER_RECORDS'' demo_store ada =
     Responded (Response 403 (Message ''Access denied. Requires permission: ADD_FARMER_RECORDS'')) \<and>
   fst (route demo_verify [] (farmers_post new_farmer ''f3'') demo_store (Some ''Bearer tok-ada'')) =
     Some (Response 403 (Message ''Access denied. Requires permission: ADD_FARMER_RECORDS'')) \<and>
   map f_id (farmers (snd (route demo_verify [] (farmers_post new_farmer ''f3'') demo_store
                             (Some ''Bearer tok-ada'')))) = [''f1'', ''f2'', ''f3''] \<and>
   authorizePermission ''DELETE_FARMER_RECORDS'' demo_store ada =
     Responded (Response 403 (Message ''Access denied. Requires permission: DELETE_FARMER_RECORDS'')) \<and>
   fst (route demo_verify [] (farmers_delete ''f1'') demo_store (Some ''Bearer tok-ada'')) =
     Some (Response 403 (Message ''Access denied. Requires permission: DELETE_FARMER_RECORDS'')) \<and>
   map f_id (farmers (snd (route demo_verify [] (farmers_delete ''f1'') demo_store
                             (Some ''Bearer tok-ada'')))) = [''f2''] \<and>
   authorizePermission ''EDIT_FARMER_RECORDS'' demo_store root =
     Responded (Response 403 (Message ''Access denied. Requires permission: EDIT_FARMER_RECORDS'')) \<and>
   fst (route demo_verify [] (farmers_put ''f1'' (empty_body\<lparr>fullName := Some ''Renamed''\<rparr>))
          demo_store (Some ''Bearer tok-root'')) =
     Some (Response 403 (Message ''Access denied. Requires permission: EDIT_FARMER_RECORDS'')) \<and>
   map f_full_name (farmers (snd (route demo_verify []
          (farmers_put ''f1'' (empty_body\<lparr>fullName := Some ''Renamed''\<rparr>))
          demo_store (Some ''Bearer tok-root'')))) = [''Renamed'', ''Dayo'']"
  by (simp add: route_def authenticateToken_def bearer_token_def demo_verify_def
      authorizePermission_def hasPermission_def single_def embed_one_def
      farmers_post_def farmers_delete_def farmers_put_def projectUser_def inline_authorize_def
      insert_farmer_def delete_farmer_def update_farmer_def farmers_fk_ok_def fk_ok_def
      updateData_def updateData_keys_def opt_key_def keep_def
      send_def catch_farmer_def falsy_str_def falsy_num_def Let_def
      new_farmer_def empty_body_def demo_store_def ada_def root_def bo_def)

subsection \<open>The OTP challenge\<close>

lemma single_email_update_otp:
  assumes "single (filter (\<lambda>x. u_email x = e) (users st)) = Some u"
  shows "single (filter (\<lambda>x. u_email x = e) (users (update_otp st (u_id u) v)))
           = Some (u\<lparr>u_otp := v\<rparr>)"
proof -
  let ?f = "\<lambda>x. if u_id x = u_id u then x\<lparr>u_otp := v\<rparr> else x"
  have c: "(\<lambda>x. u_email x = e) \<circ> ?f = (\<lambda>x. u_email x = e)"
    by (auto simp: fun_eq_iff)
  from assms have "filter (\<lambda>x. u_email x = e) (users st) = [u]"
    by (auto simp: single_def split: list.splits)
  then have "filter (\<lambda>x. u_email x = e) (map ?f (users st)) = [u\<lparr>u_otp := v\<rparr>]"
    by (simp add: filter_map c)
  then show ?thesis by (simp add: update_otp_def single_def)
qed

lemma roles_update_otp [simp]: "roles (update_otp st i v) = roles st"
  by (simp add: update_otp_def)

lemma login_ok:
  assumes "single (filter (\<lambda>x. u_email x = e) (users st)) = Some u"
    and "e \<noteq> []" and "pw \<noteq> []"
    and "bcrypt_compare pw (u_password_hash u)"
    and "u_activation_status u" and "u_is_active u"
  shows "login bcrypt_compare c \<lparr>lb_email = Some e, lb_password = Some pw\<rparr> st =
           (Some (Response 200
              (Message ''OTP sent to your email. Please verify to complete login.'')),
            update_otp st (u_id u) (Some c))"
  using assms by (simp add: login_def falsy_str_def)

lemma verify_otp_mismatch:
  assumes "single (filter (\<lambda>x. u_email x = e) (users st)) = Some u"
    and "e \<noteq> []" and "c \<noteq> []" and "u_otp u \<noteq> Some c"
  shows "verify_otp jwt_sign \<lparr>vb_email = Some e, vb_otp = Some c\<rparr> st =
           (Some (Response 400 (Message ''Invalid OTP.'')), st)"
  using assms by (simp add: verify_otp_def falsy_str_def)

lemma verify_otp_match:
  assumes "single (filter (\<lambda>x. u_email x = e) (users st)) = Some u"
    and "e \<noteq> []" and "c \<noteq> []" and "u_otp u = Some c"
    and "embed_one (\<lambda>r. r_id r = u_role_id u) (roles st) = Some role"
  shows "verify_otp jwt_sign \<lparr>vb_email = Some e, vb_otp = Some c\<rparr> st =
           (Some (Response 200
              (TokenResult ''OTP verified successfully.''
                 (jwt_sign \<lparr>userId = u_id u, email = u_email u, roleName = r_role_name role\<rparr>)
                 (u_id u) (u_full_name u) (u_email u) (r_role_name role))),
            update_otp st (u_id u) None)"
  using assms by (simp add: verify_otp_def falsy_str_def)

text \<open>
  C9. The pending code is single-use and superseded by reissuance. An active identity
  logs in twice with the right password; the first login issues code \<open>c1\<close>, the
  second a different code \<open>c2\<close>. The second issuance overwrites the pending code, and
  verifying the old code \<open>c1\<close> afterwards is answered Invalid (400) and changes
  nothing. Verifying the current code \<open>c2\<close> succeeds with the session token, and the
  store it leaves has no pending code: the code is cleared by the store the token is
  issued against. Replaying \<open>c2\<close> on that store is answered Invalid (400).
\<close>

theorem otp_single_use_and_superseded:
  fixes st :: store and bcrypt_compare :: "string \<Rightarrow> string \<Rightarrow> bool"
    and jwt_sign :: "claims \<Rightarrow> string" and e pw c1 c2 :: string
  assumes found: "single (filter (\<lambda>x. u_email x = e) (users st)) = Some u"
    and present: "e \<noteq> []" "pw \<noteq> []"
    and password: "bcrypt_compare pw (u_password_hash u)"
    and active: "u_activation_status u" "u_is_active u"
    and role: "embed_one (\<lambda>r. r_id r = u_role_id u) (roles st) = Some role"
    and codes: "c1 \<noteq> []" "c2 \<noteq> []" "c1 \<noteq> c2"
  defines "st1 \<equiv> snd (login bcrypt_compare c1 \<lparr>lb_email = Some e, lb_password = Some pw\<rparr> st)"
  defines "st2 \<equiv> snd (login bcrypt_compare c2 \<lparr>lb_email = Some e, lb_password = Some pw\<rparr> st1)"
  defines "st3 \<equiv> snd (verify_otp jwt_sign \<lparr>vb_email = Some e, vb_otp = Some c2\<rparr> st2)"
  shows "pending_otp st1 e = Some c1 \<and>
         pending_otp st2 e = Some c2 \<and>
         verify_otp jwt_sign \<lparr>vb_email = Some e, vb_otp = Some c1\<rparr> st2 =
           (Some (Response 400 (Message ''Invalid OTP.'')), st2) \<and>
         fst (verify_otp jwt_sign \<lparr>vb_email = Some e, vb_otp = Some c2\<rparr> st2) =
           Some (Response 200
              (TokenResult ''OTP verified successfully.''
                 (jwt_sign \<lparr>userId = u_id u, email = u_email u, roleName = r_role_name role\<rparr>)
                 (u_id u) (u_full_name u) (u_email u) (r_role_name role))) \<and>
         pending_otp st3 e = None \<and>
         verify_otp jwt_sign \<lparr>vb_email = Some e, vb_otp = Some c2\<rparr> st3 =
           (Some (Response 400 (Message ''Invalid OTP.'')), st3)"
proof -
  let ?u1 = "u\<lparr>u_otp := Some c1\<rparr>" and ?u2 = "u\<lparr>u_otp := Some c2\<rparr>"
    and ?u3 = "u\<lparr>u_otp := None\<rparr>"
  have s1: "st1 = update_otp st (u_id u) (Some c1)"
    unfolding st1_def
    using login_ok [where bcrypt_compare = bcrypt_compare, OF found present password active]
    by simp
  from single_email_update_otp [OF found, of "Some c1"]
  have f1: "single (filter (\<lambda>x. u_email x = e) (users st1)) = Some ?u1"
    by (simp add: s1)
  have s2: "st2 = update_otp st1 (u_id u) (Some c2)"
    unfolding st2_def
    using login_ok [where bcrypt_compare = bcrypt_compare and c = c2, OF f1 present]
      password active by simp
  from single_email_update_otp [OF f1, of "Some c2"]
  have f2: "single (filter (\<lambda>x. u_email x = e) (users st2)) = Some ?u2"
    by (simp add: s2)
  have r2: "embed_one (\<lambda>r. r_id r = u_role_id ?u2) (roles st2) = Some role"
    using role by (simp add: s1 s2)
  have v2: "verify_otp jwt_sign \<lparr>vb_email = Some e, vb_otp = Some c2\<rparr> st2 =
           (Some (Response 200
              (TokenResult ''OTP verified successfully.''
                 (jwt_sign \<lparr>userId = u_id u, email = u_email u, roleName = r_role_name role\<rparr>)
                 (u_id u) (u_full_name u) (u_email u) (r_role_name role))),
            update_otp st2 (u_id u) None)"
    using verify_otp_match [OF f2 present(1) codes(2) _ r2, of jwt_sign] by simp
  then have s3: "st3 = update_otp st2 (u_id u) None"
    by (simp add: st3_def)
  from single_email_update_otp [OF f2, of None]
  have f3: "single (filter (\<lambda>x. u_email x = e) (users st3)) = Some ?u3"
    by (simp add: s3)
  have old: "verify_otp jwt_sign \<lparr>vb_email = Some e, vb_otp = Some c1\<rparr> st2 =
           (Some (Response 400 (Message ''Invalid OTP.'')), st2)"
    using verify_otp_mismatch [OF f2 present(1) codes(1)] codes(3) by simp
  have replay: "verify_otp jwt_sign \<lparr>vb_email = Some e, vb_otp = Some c2\<rparr> st3 =
           (Some (Response 400 (Message ''Invalid OTP.'')), st3)"
    using verify_otp_mismatch [OF f3 present(1) codes(2)] by simp
  from f1 f2 f3 old v2 replay show ?thesis
    by (simp add: pending_otp_def)
qed

theorem otp_single_use_and_superseded_witness:
  "u_email (users demo_store ! 1) = ''ada@fors.org'' \<and>
   demo_compare ''secret'' (u_password_hash (users demo_store ! 1)) \<and>
   ''123456'' \<noteq> ''654321'' \<and>
   verify_otp demo_sign \<lparr>vb_email = Some ''ada@fors.org'', vb_otp = Some ''123456''\<rparr>
     (snd (login demo_compare ''654321'' ada_login
        (snd (login demo_compare ''123456'' ada_login demo_store)))) =
     (Some (Response 400 (Message ''Invalid OTP.'')),
      snd (login demo_compare ''654321'' ada_login
        (snd (login demo_compare ''123456'' ada_login demo_store)))) \<and>
   fst (verify_otp demo_sign \<lparr>vb_email = Some ''ada@fors.org'', vb_otp = Some ''654321''\<rparr>
     (snd (login demo_compare ''654321'' ada_login
        (snd (login demo_compare ''123456'' ada_login demo_store))))) =
     Some (Response 200 (TokenResult ''OTP verified successfully.'' ''jwt:u1:User''
             ''u1'' ''Ada'' ''ada@fors.org'' ''User'')) \<and>
   fst (verify_otp demo_sign \<lparr>vb_email = Some ''ada@fors.org'', vb_otp = Some ''654321''\<rparr>
     (snd (verify_otp demo_sign \<lparr>vb_email = Some ''ada@fors.org'', vb_otp = Some ''654321''\<rparr>
        (snd (login demo_compare ''654321'' ada_login
           (snd (login demo_compare ''123456'' ada_login demo_store))))))) =
     Some (Response 400 (Message ''Invalid OTP.''))"
proof -
  have found: "single (filter (\<lambda>x. u_email x = ''ada@fors.org'') (users demo_store))
                 = Some (users demo_store ! 1)"
    by (simp add: demo_store_def single_def)
  have present: "''ada@fors.org'' \<noteq> []" "''secret'' \<noteq> []" by simp_all
  have password: "demo_compare ''secret'' (u_password_hash (users demo_store ! 1))"
    by (simp add: demo_compare_def demo_store_def)
  have active: "u_activation_status (users demo_store ! 1)" "u_is_active (users demo_store ! 1)"
    by (simp_all add: demo_store_def)
  have role: "embed_one (\<lambda>r. r_id r = u_role_id (users demo_store ! 1)) (roles demo_store)
                = Some (roles demo_store ! 1)"
    by (simp add: demo_store_def embed_one_def)
  have codes: "''123456'' \<noteq> []" "''654321'' \<noteq> []" "''123456'' \<noteq> ''654321''"
    by simp_all
  have vals: "u_email (users demo_store ! 1) = ''ada@fors.org''"
    "u_id (users demo_store ! 1) = ''u1''" "u_full_name (users demo_store ! 1) = ''Ada''"
    "r_role_name (roles demo_store ! 1) = ''User''"
    by (simp_all add: demo_store_def)
  from otp_single_use_and_superseded [where bcrypt_compare = demo_compare
         and jwt_sign = demo_sign, OF found present password active role codes]
       password vals
  show ?thesis by (simp add: ada_login_def demo_sign_def)
qed

subsection \<open>Replacing the permissions of a role\<close>

lemma linked_permission_ids_filter:
  "linked_permission_ids st rid =
     rp_permission_id ` {rp \<in> set (role_permissions st). rp_role_id rp = rid}"
  by (auto simp: linked_permission_ids_def)

lemma linked_rows:
  "[rp_permission_id rp.
      rp \<leftarrow> map (\<lambda>permission_id. \<lparr>rp_role_id = i, rp_permission_id = permission_id\<rparr>) ids,
      rp_role_id rp = i] = ids"
  by (induction ids) simp_all

lemma update_role_name_ok:
  assumes "single (filter (\<lambda>r. r_id r = i) (roles st)) = Some role"
    and "\<forall>r \<in> set (roles st). r_id r \<noteq> i \<longrightarrow> r_role_name r \<noteq> name"
  shows "update_role_name st i name =
           Inr (st\<lparr>roles := map (\<lambda>r. if r_id r = i then r\<lparr>r_role_name := name\<rparr> else r)
                               (roles st)\<rparr>,
                role\<lparr>r_role_name := name\<rparr>)"
proof -
  from assms(1) have f: "filter (\<lambda>r. r_id r = i) (roles st) = [role]"
    by (auto simp: single_def split: list.splits)
  from assms(2) have "\<not> list_ex (\<lambda>r. r_id r \<noteq> i \<and> r_role_name r = name) (roles st)"
    by (auto simp: list_ex_iff)
  with f show ?thesis by (simp add: update_role_name_def single_def)
qed

lemma no_other_role:
  assumes "\<forall>r \<in> set (roles st). r_id r \<noteq> i \<longrightarrow> r_role_name r \<noteq> name"
  shows "single (filter (\<lambda>r. r_role_name r = name \<and> r_id r \<noteq> i) (roles st)) = None"
proof -
  from assms have "filter (\<lambda>r. r_role_name r = name \<and> r_id r \<noteq> i) (roles st) = []"
    by (auto simp: filter_empty_conv)
  then show ?thesis by (simp add: single_def)
qed

lemma insert_role_permissions_iff:
  fixes st :: store and i :: nat and ids :: "nat list"
  defines "rows \<equiv> map (\<lambda>permission_id. \<lparr>rp_role_id = i, rp_permission_id = permission_id\<rparr>) ids"
  assumes d: "distinct (map (\<lambda>rp. (rp_role_id rp, rp_permission_id rp)) (role_permissions st))"
    and none: "\<forall>rp \<in> set (role_permissions st). rp_role_id rp \<noteq> i"
    and role: "i \<in> set (map r_id (roles st))"
  shows "insert_role_permissions st rows =
           (if \<not> distinct ids then Inl unique_violation
            else if \<not> set ids \<subseteq> set (map p_id (permissions st)) then Inl fk_violation
            else Inr (st\<lparr>role_permissions := role_permissions st @ rows\<rparr>))"
proof -
  have k: "map (\<lambda>rp. (rp_role_id rp, rp_permission_id rp)) rows = map (Pair i) ids"
    by (simp add: rows_def comp_def)
  have dk: "distinct (map (Pair i) ids) = distinct ids"
    by (simp add: distinct_map inj_on_def)
  have disj: "set (map (\<lambda>rp. (rp_role_id rp, rp_permission_id rp)) (role_permissions st))
              \<inter> set (map (Pair i) ids) = {}"
    using none by auto
  have 1: "distinct (map (\<lambda>rp. (rp_role_id rp, rp_permission_id rp))
                       (role_permissions st @ rows)) = distinct ids"
    using d dk disj by (simp add: k)
  have 2: "list_all (\<lambda>rp. rp_role_id rp \<in> set (map r_id (roles st)) \<and>
                          rp_permission_id rp \<in> set (map p_id (permissions st))) rows
           = (set ids \<subseteq> set (map p_id (permissions st)))"
    using role by (auto simp: rows_def list_all_iff)
  show ?thesis
    unfolding insert_role_permissions_def Let_def 1 2 by simp
qed

lemma roles_put_result:
  fixes st :: store
  assumes ok: "schema_ok st"
    and valid: "body_roleName b = Some name" "name \<noteq> []"
      "\<forall>r \<in> set (roles st). r_id r \<noteq> i \<longrightarrow> r_role_name r \<noteq> name"
    and found: "single (filter (\<lambda>r. r_id r = i) (roles st)) = Some role"
  defines "ids \<equiv> (case permissionIds b of None \<Rightarrow> [] | Some l \<Rightarrow> l)"
  defines "st2 \<equiv> delete_role_permissions
                    (st\<lparr>roles := map (\<lambda>r. if r_id r = i then r\<lparr>r_role_name := name\<rparr> else r)
                                   (roles st)\<rparr>) i"
  shows "roles_put i b st user =
           (if \<not> distinct ids
            then (Some (Response 500 (ServerError ''Server error.'' (message unique_violation))), st2)
            else if \<not> set ids \<subseteq> set (map p_id (permissions st))
            then (Some (Response 500 (ServerError ''Server error.'' (message fk_violation))), st2)
            else (Some (Response 200 (RoleResult ''Role updated successfully.''
                                        (role\<lparr>r_role_name := name\<rparr>))),
                  st2\<lparr>role_permissions := role_permissions st2 @
                         map (\<lambda>permission_id. \<lparr>rp_role_id = i, rp_permission_id = permission_id\<rparr>)
                           ids\<rparr>))"
proof -
  from ok have d: "distinct (map (\<lambda>rp. (rp_role_id rp, rp_permission_id rp)) (role_permissions st))"
    by (simp add: schema_ok_def)
  have rp2: "role_permissions st2 = filter (\<lambda>rp. rp_role_id rp \<noteq> i) (role_permissions st)"
    by (simp add: st2_def delete_role_permissions_def)
  have d2: "distinct (map (\<lambda>rp. (rp_role_id rp, rp_permission_id rp)) (role_permissions st2))"
    unfolding rp2 using d by (rule distinct_map_filter)
  have none: "\<forall>rp \<in> set (role_permissions st2). rp_role_id rp \<noteq> i"
    by (simp add: rp2)
  from single_filter_Some [OF found] have "role \<in> set (roles st)" "r_id role = i" by simp_all
  then have role: "i \<in> set (map r_id (roles st2))"
    by (force simp: st2_def delete_role_permissions_def comp_def image_iff)
  have p2: "permissions st2 = permissions st"
    by (simp add: st2_def delete_role_permissions_def)
  note ins = insert_role_permissions_iff [OF d2 none role, of ids, unfolded p2]
  note upd = update_role_name_ok [OF found valid(3)]
  note chk = no_other_role [OF valid(3)]
  show ?thesis
  proof (cases "ids = []")
    case True
    with valid(1,2) chk upd show ?thesis
      by (simp add: roles_put_def falsy_str_def ids_def [symmetric] st2_def [symmetric])
  next
    case False
    with valid(1,2) chk upd ins show ?thesis
      by (simp add: roles_put_def falsy_str_def ids_def [symmetric] st2_def [symmetric])
  qed
qed


lemma users_update_role_name:
  "update_role_name st i name = Inr (st1, row) \<Longrightarrow> users st1 = users st"
  by (auto simp: update_role_name_def split: if_splits option.splits)

lemma users_insert_role_permissions:
  "insert_role_permissions st rows = Inr st1 \<Longrightarrow> users st1 = users st"
  by (auto simp: insert_role_permissions_def Let_def split: if_splits)

lemma users_delete_role_permissions [simp]:
  "users (delete_role_permissions st i) = users st"
  by (simp add: delete_role_permissions_def)

lemma users_roles_put: "users (snd (roles_put i b st user)) = users st"
  by (auto simp: roles_put_def Let_def
      dest!: users_update_role_name users_insert_role_permissions
      split: option.splits sum.splits)

lemma no_links_denied:
  assumes e: "linked_permission_ids st rid = {}"
    and r: "\<forall>u \<in> set (users st). u_id u = userId c \<longrightarrow> u_role_id u = rid"
  shows "authorizePermission code st c \<noteq> Next ()"
proof (cases "single (filter (\<lambda>u. u_id u = userId c) (users st))")
  case None
  then show ?thesis by (simp add: authorizePermission_def)
next
  case (Some u)
  from single_filter_Some [OF Some] r have ur: "u_role_id u = rid" by blast
  show ?thesis
  proof (cases "embed_one (\<lambda>x. r_id x = u_role_id u) (roles st)")
    case None
    with Some show ?thesis by (simp add: authorizePermission_def)
  next
    case (Some role)
    then have "r_id role = rid"
      using ur by (auto simp: embed_one_def find_Some_iff)
    with e have "filter (\<lambda>rp. rp_role_id rp = r_id role) (role_permissions st) = []"
      by (auto simp: linked_permission_ids_filter filter_empty_conv)
    then have "\<not> hasPermission st role code"
      by (simp add: hasPermission_def)
    with authorizePermission_found [OF \<open>single _ = Some u\<close> Some] show ?thesis by simp
  qed
qed

lemma route_root_edit_roles:
  "route demo_verify [''EDIT_ROLES''] h demo_store (Some ''Bearer tok-root'') = h demo_store root"
  by (simp add: route_def authenticateToken_def bearer_token_def demo_verify_def
      authorizePermission_def hasPermission_def single_def embed_one_def
      demo_store_def root_def)

lemma demo_schema_ok: "schema_ok demo_store"
  by (simp add: schema_ok_def demo_store_def)

lemma demo_role_2:
  "single (filter (\<lambda>r. r_id r = 2) (roles demo_store)) = Some (roles demo_store ! 1)"
  "\<forall>r \<in> set (roles demo_store). r_id r \<noteq> 2 \<longrightarrow> r_role_name r \<noteq> ''User''"
  by (simp_all add: demo_store_def single_def)

text \<open>
  C10 as stated: every role update that passes validation and finds the role leaves the
  role linked to exactly the supplied permission keys. The administrator updates role 2
  with \<open>permissionIds = [9]\<close>; no permission has key 9. The request passes validation
  and the role is found and renamed, its links are deleted, the insert is rejected by the
  foreign key, the answer is 500, and the role is left with no link at all.
\<close>

theorem roles_put_links_counterexample:
  "r_id (roles demo_store ! 1) = 2 \<and> r_role_name (roles demo_store ! 1) = ''User'' \<and>
   linked_permission_ids demo_store 2 = {3} \<and>
   fst (route demo_verify [''EDIT_ROLES'']
          (roles_put 2 \<lparr>body_roleName = Some ''User'', permissionIds = Some [9]\<rparr>)
          demo_store (Some ''Bearer tok-root'')) =
     Some (Response 500 (ServerError ''Server error.''
        ''insert or update on table violates foreign key constraint'')) \<and>
   linked_permission_ids
     (snd (route demo_verify [''EDIT_ROLES'']
          (roles_put 2 \<lparr>body_roleName = Some ''User'', permissionIds = Some [9]\<rparr>)
          demo_store (Some ''Bearer tok-root''))) 2 = {} \<and>
   linked_permission_ids
     (snd (route demo_verify [''EDIT_ROLES'']
          (roles_put 2 \<lparr>body_roleName = Some ''User'', permissionIds = Some [9]\<rparr>)
          demo_store (Some ''Bearer tok-root''))) 2 \<noteq> set [9]"
proof -
  have p: "\<not> set [9::nat] \<subseteq> set (map p_id (permissions demo_store))"
    by (simp add: demo_store_def)
  have v: "r_id (roles demo_store ! 1) = 2" "r_role_name (roles demo_store ! 1) = ''User''"
    by (simp_all add: demo_store_def)
  have l: "linked_permission_ids demo_store 2 = {3}"
    by (simp add: linked_permission_ids_def demo_store_def)
  have r: "roles_put 2 \<lparr>body_roleName = Some ''User'', permissionIds = Some [9]\<rparr>
             demo_store root =
           (Some (Response 500 (ServerError ''Server error.'' (message fk_violation))),
            delete_role_permissions
              (demo_store\<lparr>roles := map (\<lambda>r. if r_id r = 2 then r\<lparr>r_role_name := ''User''\<rparr> else r)
                                      (roles demo_store)\<rparr>) 2)"
    using roles_put_result [OF demo_schema_ok _ _ demo_role_2(2,1),
            of "\<lparr>body_roleName = Some ''User'', permissionIds = Some [9]\<rparr>" root] p
    by simp
  have e: "linked_permission_ids
             (delete_role_permissions
              (demo_store\<lparr>roles := map (\<lambda>r. if r_id r = 2 then r\<lparr>r_role_name := ''User''\<rparr> else r)
                                      (roles demo_store)\<rparr>) 2) 2 = {}"
    by (auto simp: delete_role_permissions_def linked_permission_ids_filter)
  from v l r e show ?thesis
    by (simp add: route_root_edit_roles fk_violation_def)
qed

text \<open>
  C10, amended. For every role update (PUT /api/roles/:id) that passes validation and
  finds the role, the existing links of the role are deleted before the supplied list is
  inserted. When the supplied keys are distinct and each is the key of a permission, the
  answer is 200 and the role's linked permission set afterwards is exactly the supplied
  set. Otherwise the insert is rejected, the answer is 500, and the role is left with no
  linked permission, the deletion having already happened. When \<open>permissionIds\<close> is
  omitted or empty the answer is 200, the role has no linked permission, and every
  later \<open>authorizePermission\<close> for an identity of that role denies.
\<close>

theorem roles_put_replaces_links:
  fixes st :: store and b :: role_body and i :: nat and user :: claims
  assumes ok: "schema_ok st"
    and valid: "body_roleName b = Some name" "name \<noteq> []"
      "\<forall>r \<in> set (roles st). r_id r \<noteq> i \<longrightarrow> r_role_name r \<noteq> name"
    and found: "single (filter (\<lambda>r. r_id r = i) (roles st)) = Some role"
  defines "ids \<equiv> (case permissionIds b of None \<Rightarrow> [] | Some l \<Rightarrow> l)"
  shows "(distinct ids \<and> set ids \<subseteq> set (map p_id (permissions st)) \<longrightarrow>
            fst (roles_put i b st user) =
              Some (Response 200 (RoleResult ''Role updated successfully.''
                                    (role\<lparr>r_role_name := name\<rparr>))) \<and>
            linked_permission_ids (snd (roles_put i b st user)) i = set ids)
       \<and> (\<not> (distinct ids \<and> set ids \<subseteq> set (map p_id (permissions st))) \<longrightarrow>
            (\<exists>m. fst (roles_put i b st user) =
                    Some (Response 500 (ServerError ''Server error.'' m))) \<and>
            linked_permission_ids (snd (roles_put i b st user)) i = {})
       \<and> (ids = [] \<longrightarrow>
            (\<forall>code c. (\<forall>u \<in> set (users (snd (roles_put i b st user))).
                           u_id u = userId c \<longrightarrow> u_role_id u = i) \<longrightarrow>
                       authorizePermission code (snd (roles_put i b st user)) c \<noteq> Next ()))"
proof -
  define st2 where "st2 = delete_role_permissions
                    (st\<lparr>roles := map (\<lambda>r. if r_id r = i then r\<lparr>r_role_name := name\<rparr> else r)
                                   (roles st)\<rparr>) i"
  note res = roles_put_result [OF ok valid found, of user, folded ids_def st2_def]
  have l2: "linked_permission_ids st2 i = {}"
    by (auto simp: st2_def delete_role_permissions_def linked_permission_ids_filter)
  have l3: "linked_permission_ids
              (st2\<lparr>role_permissions := role_permissions st2 @
                 map (\<lambda>permission_id. \<lparr>rp_role_id = i, rp_permission_id = permission_id\<rparr>) ids\<rparr>) i
            = set ids"
  proof -
    have "linked_permission_ids
              (st2\<lparr>role_permissions := role_permissions st2 @
                 map (\<lambda>permission_id. \<lparr>rp_role_id = i, rp_permission_id = permission_id\<rparr>) ids\<rparr>) i
          = linked_permission_ids st2 i \<union>
            set [rp_permission_id rp.
                   rp \<leftarrow> map (\<lambda>permission_id. \<lparr>rp_role_id = i, rp_permission_id = permission_id\<rparr>) ids,
                   rp_role_id rp = i]"
      by (simp add: linked_permission_ids_def)
    with l2 show ?thesis by (simp add: linked_rows)
  qed
  have a: "distinct ids \<and> set ids \<subseteq> set (map p_id (permissions st)) \<longrightarrow>
            fst (roles_put i b st user) =
              Some (Response 200 (RoleResult ''Role updated successfully.''
                                    (role\<lparr>r_role_name := name\<rparr>))) \<and>
            linked_permission_ids (snd (roles_put i b st user)) i = set ids"
    using res l3 by simp
  have b: "\<not> (distinct ids \<and> set ids \<subseteq> set (map p_id (permissions st))) \<longrightarrow>
            (\<exists>m. fst (roles_put i b st user) =
                    Some (Response 500 (ServerError ''Server error.'' m))) \<and>
            linked_permission_ids (snd (roles_put i b st user)) i = {}"
    using res l2 by auto
  have c: "ids = [] \<longrightarrow>
            (\<forall>code c. (\<forall>u \<in> set (users (snd (roles_put i b st user))).
                           u_id u = userId c \<longrightarrow> u_role_id u = i) \<longrightarrow>
                       authorizePermission code (snd (roles_put i b st user)) c \<noteq> Next ())"
  proof (intro impI allI)
    fix code :: string and c :: claims
    assume e: "ids = []"
      and r: "\<forall>u \<in> set (users (snd (roles_put i b st user))).
                 u_id u = userId c \<longrightarrow> u_role_id u = i"
    from e a have "linked_permission_ids (snd (roles_put i b st user)) i = {}" by simp
    from no_links_denied [OF this r]
    show "authorizePermission code (snd (roles_put i b st user)) c \<noteq> Next ()" .
  qed
  from a b c show ?thesis by blast
qed


theorem roles_put_replaces_links_witness:
  "schema_ok demo_store \<and> linked_permission_ids demo_store 2 = {3} \<and>
   fst (roles_put 2 \<lparr>body_roleName = Some ''User'', permissionIds = Some [1, 2]\<rparr>
          demo_store root) =
     Some (Response 200 (RoleResult ''Role updated successfully.''
                           \<lparr>r_id = 2, r_role_name = ''User''\<rparr>)) \<and>
   linked_permission_ids
     (snd (roles_put 2 \<lparr>body_roleName = Some ''User'', permissionIds = Some [1, 2]\<rparr>
             demo_store root)) 2 = {1, 2} \<and>
   linked_permission_ids
     (snd (roles_put 2 \<lparr>body_roleName = Some ''User'', permissionIds = Some [2, 2]\<rparr>
             demo_store root)) 2 = {} \<and>
   authorizePermission ''EDIT_FARMER_RECORDS'' demo_store ada = Next () \<and>
   authorizePermission ''EDIT_FARMER_RECORDS''
     (snd (roles_put 2 \<lparr>body_roleName = Some ''User'', permissionIds = None\<rparr>
             demo_store root)) ada \<noteq> Next ()"
proof -
  have n: "''User'' \<noteq> []" by simp
  have role: "roles demo_store ! Suc 0 = \<lparr>r_id = 2, r_role_name = ''User''\<rparr>"
    by (simp add: demo_store_def)
  have l: "linked_permission_ids demo_store 2 = {3}"
    by (simp add: linked_permission_ids_def demo_store_def)
  have p: "set [1, 2 :: nat] \<subseteq> set (map p_id (permissions demo_store))"
    by (simp add: demo_store_def)
  have before: "authorizePermission ''EDIT_FARMER_RECORDS'' demo_store ada = Next ()"
    by (simp add: authorizePermission_def hasPermission_def single_def embed_one_def
        demo_store_def ada_def)
  have u: "\<forall>u \<in> set (users (snd (roles_put 2
               \<lparr>body_roleName = Some ''User'', permissionIds = None\<rparr> demo_store root))).
             u_id u = userId ada \<longrightarrow> u_role_id u = 2"
    by (simp add: users_roles_put demo_store_def ada_def)
  note t = roles_put_replaces_links [OF demo_schema_ok _ n demo_role_2(2,1), where user = root]
  from t [of "\<lparr>body_roleName = Some ''User'', permissionIds = Some [1, 2]\<rparr>"] p
  have a: "fst (roles_put 2 \<lparr>body_roleName = Some ''User'', permissionIds = Some [1, 2]\<rparr>
                  demo_store root) =
             Some (Response 200 (RoleResult ''Role updated successfully.''
                                   \<lparr>r_id = 2, r_role_name = ''User''\<rparr>)) \<and>
           linked_permission_ids
             (snd (roles_put 2 \<lparr>body_roleName = Some ''User'', permissionIds = Some [1, 2]\<rparr>
                     demo_store root)) 2 = {1, 2}"
    by (simp add: role insert_commute)
  from t [of "\<lparr>body_roleName = Some ''User'', permissionIds = Some [2, 2]\<rparr>"]
  have b: "linked_permission_ids
             (snd (roles_put 2 \<lparr>body_roleName = Some ''User'', permissionIds = Some [2, 2]\<rparr>
                     demo_store root)) 2 = {}"
    by simp
  from t [of "\<lparr>body_roleName = Some ''User'', permissionIds = None\<rparr>"] u
  have c: "authorizePermission ''EDIT_FARMER_RECORDS''
             (snd (roles_put 2 \<lparr>body_roleName = Some ''User'', permissionIds = None\<rparr>
                     demo_store root)) ada \<noteq> Next ()"
    by simp
  from demo_schema_ok l a b before c show ?thesis by simp
qed

end
